theory Spec2Isabelle
  imports
    Complex_Main
    "HOL-Library.AList"
    "HOL-Library.Multiset"
    "HOL-Library.Char_ord"
    "HOL-Library.List_Lexorder"
    "HOL-Library.Signed_Division"
begin

section \<open>Topology-aware policy: shared data model\<close>

text \<open>
  The Go sources use \<open>idset.ID\<close> (an \<open>int\<close>) for NUMA node, die and package
  identifiers and \<open>cpuset.CPUSet\<close> for sets of CPU numbers.  Go's \<open>int\<close>, 64 bits
  wide on the platforms the policy runs on, is modelled as \<open>int\<close>; where the embedded
  functions compute with values that are not bounded by the number of CPUs of a machine
  (\<open>Colocated() + 1\<close>, the quotient by it, and the sum of requested milli-CPUs), the
  wrap-around of the 64-bit two's complement result is written out with \<open>wrap64\<close>.
\<close>

type_synonym ID = int
type_synonym CPUSet = "int set"
type_synonym NodeMask = nat

definition wrap64 :: "int \<Rightarrow> int" where
  "wrap64 x = (x + 2 ^ 63) mod 2 ^ 64 - 2 ^ 63"

text \<open>The CPU allocation classes of a request or grant.  The switch of \<open>applyGrant\<close>
  has a default branch for any further value of the Go integer type; \<open>cpuUnknown\<close>
  stands for those.\<close>

datatype cpuClass = cpuNormal | cpuReserved | cpuPreserve | cpuUnknown

text \<open>The CPU priority preference of a request.  The comparator switches on
  \<open>lowPrio\<close>, \<open>highPrio\<close> and \<open>normalPrio\<close>; \<open>nonePrio\<close> stands for any
  other value of the Go integer type.\<close>

datatype cpuPrio = lowPrio | normalPrio | highPrio | nonePrio

text \<open>The memory type of a request or grant is a bit mask; the two distinguished
  values \<open>memoryUnspec\<close> and \<open>memoryPreserve\<close> are declared outside the embedded
  sources and are passed where a function compares with them.\<close>

type_synonym memoryType = nat

text \<open>
  A pool of the tree, as the comparator reads it: \<open>NodeID()\<close>, \<open>RootDistance()\<close>,
  \<open>Name()\<close>, \<open>HasMemoryType(t)\<close> and its children.  A \<open>Node\<close> is a position in
  the tree: the pool itself together with the chain that \<open>Parent()\<close> follows up to
  the nil node (nearest ancestor first).
\<close>

datatype Pool =
  Pool (NodeID: int) (RootDistance: int) (Name: string)
       (HasMemoryType: "memoryType \<Rightarrow> bool") (Children: "Pool list")

record Node =
  self :: Pool
  ancestors :: "Pool list"

text \<open>A request, through the accessors \<open>GetContainer().GetID()\<close>, \<open>CPUType()\<close>,
  \<open>CPUPrio()\<close>, \<open>MemoryType()\<close>, \<open>Isolate()\<close> and \<open>FullCPUs()\<close>.\<close>

record Request =
  reqContainer :: string
  reqCPUType :: cpuClass
  reqCPUPrio :: cpuPrio
  reqMemoryType :: memoryType
  reqIsolate :: bool
  reqFullCPUs :: int

text \<open>A memory offer, through \<open>NodeMask()\<close>.\<close>

record Offer =
  OfferNodeMask :: NodeMask

text \<open>A score, through its accessors.  \<open>HintScores()\<close> is a Go map from hint
  provider to \<open>float64\<close>, kept in the order \<open>range\<close> visits it; \<open>Offer()\<close> may be
  nil.  The \<open>float64\<close> values of hint and affinity scores are modelled by exact real
  numbers.\<close>

record Score =
  IsolatedCapacity :: int
  ReservedCapacity :: int
  SharedCapacity :: int
  Colocated :: int
  HintScores :: "(string \<times> real) list"
  PrioCapacity :: "cpuPrio \<Rightarrow> int"
  ScoreOffer :: "Offer option"

text \<open>A grant, as seen through the accessor methods the embedded functions call:
  \<open>GetContainer().GetID()\<close>, \<open>CPUType()\<close>, \<open>ExclusiveCPUs()\<close>,
  \<open>ReservedCPUs()\<close>, \<open>SharedCPUs()\<close>, \<open>SharedPortion()\<close>,
  \<open>ReservedPortion()\<close>, \<open>MemoryType()\<close>, \<open>GetMemoryZone()\<close> and
  \<open>GetCPUNode()\<close>.\<close>

record Grant =
  GetContainer :: string
  CPUType :: cpuClass
  ExclusiveCPUs :: CPUSet
  ReservedCPUs :: CPUSet
  SharedCPUs :: CPUSet
  SharedPortion :: int
  ReservedPortion :: int
  MemoryType :: memoryType
  GetMemoryZone :: NodeMask
  GetCPUNode :: Node

text \<open>The part of a cached container the policy writes to.\<close>

record Container =
  CpusetCpus :: string
  CpusetMems :: string
  CPUShares :: int

text \<open>
  The policy state the allocator functions read and write: the two configuration
  options, the root pool \<open>p.root\<close> and the list of pools in depth-first order, the allocations
  table \<open>p.allocations.grants\<close> (a Go map from container id to grant, kept as an
  association list whose order is the order in which \<open>range\<close> happens to visit it),
  the cached containers by id, the state of the pool supplies (of an abstract type
  \<open>'s\<close>, read and changed only by functions outside the embedded sources) and what
  \<open>saveAllocations\<close> has last persisted, with the number of times it has run.
\<close>

record 's policy =
  PinCPU :: bool
  PinMemory :: bool
  root_pool :: Node
  pools :: "Node list"
  grants :: "(string \<times> Grant) list"
  containers :: "string \<Rightarrow> Container"
  supplies :: 's
  savedAllocations :: "(string \<times> Grant) list"
  saveCount :: nat

datatype policyError =
    SocketsShareNUMA ID ID "ID set"
  | AsymmetricDistance ID ID int int
  | NoSurrogate ID
  | NilNode ID
  | InvalidLabelValue
  | NilScore
  | DivideByZero
  | IndexOutOfRange
  | FailedOffer
  | FailedAffinity
  | NoSuitablePool
  | FailedAllocate

text \<open>Functions and constants of other packages that the embedded functions use;
  they are parameters of the model.\<close>

record 's extern =
  hideHyperthreads :: "string \<Rightarrow> bool"
    \<comment> \<open>\<open>container.GetPod()\<close> succeeds and \<open>hideHyperthreadsPreference\<close> holds\<close>
  SingleThreadForCPUs :: "CPUSet \<Rightarrow> CPUSet"
  CPUSetString :: "CPUSet \<Rightarrow> string"
  MemsetString :: "NodeMask \<Rightarrow> string"
  MilliCPUToShares :: "int \<Rightarrow> int"
  SharableCPUs :: "'s \<Rightarrow> Node \<Rightarrow> CPUSet"
    \<comment> \<open>\<open>node.FreeSupply().SharableCPUs()\<close>\<close>
  FreeReservedCPUs :: "'s \<Rightarrow> Node \<Rightarrow> CPUSet"
    \<comment> \<open>\<open>node.FreeSupply().ReservedCPUs()\<close>\<close>
  Release :: "Grant \<Rightarrow> 's \<Rightarrow> 's"
    \<comment> \<open>\<open>grant.Release()\<close>\<close>
  memoryPreserve :: memoryType
  memoryUnspec :: memoryType
  TypeMask :: "memoryType \<Rightarrow> nat"
  memZoneType :: "NodeMask \<Rightarrow> nat"
  NodeMaskSize :: "NodeMask \<Rightarrow> int"
  newRequest :: "string \<Rightarrow> Request"
    \<comment> \<open>\<open>newRequest(container, p.memAllocator.Masks().AvailableTypes())\<close>\<close>
  getMemOffer :: "'s \<Rightarrow> Node \<Rightarrow> Request \<Rightarrow> Offer option"
    \<comment> \<open>\<open>None\<close> for a non-nil error\<close>
  calculatePoolAffinities :: "'s policy \<Rightarrow> string \<Rightarrow> (int \<rightharpoonup> int) option"
    \<comment> \<open>\<open>None\<close> for a non-nil error\<close>
  GetScore :: "'s \<Rightarrow> Node \<Rightarrow> Request \<Rightarrow> Score"
  Allocate :: "'s \<Rightarrow> Node \<Rightarrow> Request \<Rightarrow> Offer \<Rightarrow> (Grant \<times> (string \<times> NodeMask) list \<times> 's) option"
    \<comment> \<open>\<open>pool.FreeSupply().Allocate(request, offer)\<close>: the grant, the zone updates
        and the new state of the supplies, or \<open>None\<close> for a non-nil error\<close>
  sortSlice :: "(Node \<Rightarrow> Node \<Rightarrow> policyError + bool) \<Rightarrow> Node list \<Rightarrow> policyError + Node list"
    \<comment> \<open>\<open>sort.Slice\<close> with a comparison that may panic\<close>

subsection \<open>Container setters and persistence\<close>

definition SetCpusetCpus :: "string \<Rightarrow> string \<Rightarrow> 's policy \<Rightarrow> 's policy" where
  "SetCpusetCpus c v p = p\<lparr>containers := (containers p)(c := (containers p c)\<lparr>CpusetCpus := v\<rparr>)\<rparr>"

definition SetCpusetMems :: "string \<Rightarrow> string \<Rightarrow> 's policy \<Rightarrow> 's policy" where
  "SetCpusetMems c v p = p\<lparr>containers := (containers p)(c := (containers p c)\<lparr>CpusetMems := v\<rparr>)\<rparr>"

definition SetCPUShares :: "string \<Rightarrow> int \<Rightarrow> 's policy \<Rightarrow> 's policy" where
  "SetCPUShares c v p = p\<lparr>containers := (containers p)(c := (containers p c)\<lparr>CPUShares := v\<rparr>)\<rparr>"

definition saveAllocations :: "'s policy \<Rightarrow> 's policy" where
  "saveAllocations p = p\<lparr>savedAllocations := grants p, saveCount := Suc (saveCount p)\<rparr>"

subsection \<open>setPreferredCpusetCpus\<close>

definition setPreferredCpusetCpus ::
  "'s extern \<Rightarrow> string \<Rightarrow> CPUSet \<Rightarrow> 's policy \<Rightarrow> 's policy" where
  "setPreferredCpusetCpus ext container allocated p =
     (let allow = (if hideHyperthreads ext container
                   then SingleThreadForCPUs ext allocated else allocated)
      in SetCpusetCpus container (CPUSetString ext allow) p)"

subsection \<open>applyGrant\<close>

definition applyGrant :: "'s extern \<Rightarrow> Grant \<Rightarrow> 's policy \<Rightarrow> 's policy" where
  "applyGrant ext grant p =
     (let container = GetContainer grant;
          cpuType = CPUType grant;
          exclusive = ExclusiveCPUs grant;
          reserved = ReservedCPUs grant;
          shared = SharedCPUs grant;
          cpuPortion0 = SharedPortion grant
      in if cpuType = cpuUnknown then p
         else
           let cpus = (case cpuType of
                         cpuNormal \<Rightarrow>
                           (if exclusive = {} then shared
                            else if cpuPortion0 > 0 then exclusive \<union> shared
                            else exclusive)
                       | cpuReserved \<Rightarrow> reserved
                       | _ \<Rightarrow> {});
               cpuPortion = (if cpuType = cpuReserved then ReservedPortion grant
                             else cpuPortion0);
               mems = (if PinMemory p then GetMemoryZone grant else 0);
               p1 = (if PinCPU p then
                       let p0 = (if cpuType = cpuPreserve then p
                                 else if int (card cpus) > 0
                                   then setPreferredCpusetCpus ext container cpus p
                                   else SetCpusetCpus container [] p);
                           milliCPU = (if cpuPortion = 0
                                       then 1000 * int (card (ExclusiveCPUs grant))
                                       else cpuPortion)
                       in SetCPUShares container (MilliCPUToShares ext milliCPU) p0
                     else p)
           in if MemoryType grant = memoryPreserve ext then p1
              else SetCpusetMems container (MemsetString ext mems) p1)"

subsection \<open>releasePool\<close>

text \<open>The result pair \<open>(Grant, bool)\<close> of the Go function is the option: \<open>(nil, false)\<close>
  is \<open>None\<close>, \<open>(grant, true)\<close> is \<open>Some grant\<close>.\<close>

definition releasePool ::
  "'s extern \<Rightarrow> string \<Rightarrow> 's policy \<Rightarrow> Grant option \<times> 's policy" where
  "releasePool ext container p =
     (case map_of (grants p) container of
        None \<Rightarrow> (None, p)
      | Some grant \<Rightarrow>
          (Some grant,
           saveAllocations
             (p\<lparr>supplies := Release ext grant (supplies p),
                grants := AList.delete container (grants p)\<rparr>)))"

subsection \<open>updateSharedAllocations\<close>

text \<open>The body of the loop over the allocations table, for one grant \<open>other\<close>.\<close>

definition updateSharedAllocation ::
  "'s extern \<Rightarrow> Grant option \<Rightarrow> Grant \<Rightarrow> 's policy \<Rightarrow> 's policy" where
  "updateSharedAllocation ext grant other p =
     (if (case grant of None \<Rightarrow> False | Some g \<Rightarrow> GetContainer other = GetContainer g) then p
      else if CPUType other = cpuReserved then p
      else if CPUType other = cpuPreserve then p
      else if SharedPortion other = 0 \<and> ExclusiveCPUs other \<noteq> {} then p
      else if PinCPU p then
        (let shared = SharableCPUs ext (supplies p) (GetCPUNode other);
             exclusive = ExclusiveCPUs other
         in if exclusive = {}
            then setPreferredCpusetCpus ext (GetContainer other) shared p
            else setPreferredCpusetCpus ext (GetContainer other) (exclusive \<union> shared) p)
      else p)"

definition updateSharedAllocations ::
  "'s extern \<Rightarrow> Grant option \<Rightarrow> 's policy \<Rightarrow> 's policy" where
  "updateSharedAllocations ext grant p =
     (if (case grant of None \<Rightarrow> False | Some g \<Rightarrow> CPUType g = cpuReserved) then p
      else fold (\<lambda>(cid, other). updateSharedAllocation ext grant other) (grants p) p)"

section \<open>Topology builder\<close>

text \<open>The hardware snapshot \<open>p.sys\<close>, as far as \<open>checkHWTopology\<close> and
  \<open>assignNUMANodes\<close> read it.\<close>

record System =
  PackageIDs :: "ID list"
  PackageNodeIDs :: "ID \<Rightarrow> ID list"  \<comment> \<open>\<open>Package(id).NodeIDs()\<close>\<close>
  DieIDs :: "ID \<Rightarrow> ID list"  \<comment> \<open>\<open>Package(id).DieIDs()\<close>\<close>
  DieNodeIDs :: "ID \<Rightarrow> ID \<Rightarrow> ID list"  \<comment> \<open>\<open>Package(id).DieNodeIDs(die)\<close>\<close>
  NodeIDs :: "ID list"
  NodeDistance :: "ID \<Rightarrow> ID \<Rightarrow> int"

text \<open>A loop that returns from the enclosing function at the first element for which
  its body does: \<open>None\<close> when every iteration falls through.\<close>

fun firstReturn :: "('a \<Rightarrow> 'b option) \<Rightarrow> 'a list \<Rightarrow> 'b option" where
  "firstReturn body [] = None"
| "firstReturn body (x # xs) =
     (case body x of Some r \<Rightarrow> Some r | None \<Rightarrow> firstReturn body xs)"

subsection \<open>checkHWTopology\<close>

text \<open>The three checks of \<open>checkHWTopology\<close>, in the order of the source.  The
  first one ranges over a Go map keyed by socket id; the model visits the sockets in the
  order of \<open>PackageIDs\<close>, which decides only which sharing pair the error names.\<close>

definition socketsShareNodes :: "System \<Rightarrow> policyError option" where
  "socketsShareNodes sys =
     firstReturn (\<lambda>id1.
       firstReturn (\<lambda>id2.
         if id1 = id2 then None
         else let shared = set (PackageNodeIDs sys id1) \<inter> set (PackageNodeIDs sys id2)
              in if shared \<noteq> {} then Some (SocketsShareNUMA id1 id2 shared) else None)
         (PackageIDs sys))
       (PackageIDs sys)"

definition diesShareNodes :: "System \<Rightarrow> bool option" where
  "diesShareNodes sys =
     firstReturn (\<lambda>socketID.
       firstReturn (\<lambda>id1.
         let nodes1 = set (DieNodeIDs sys socketID id1)
         in firstReturn (\<lambda>id2.
              if id1 = id2 then None
              else let nodes2 = set (DieNodeIDs sys socketID id2)
                   in if nodes1 \<inter> nodes2 \<noteq> {} then Some True else None)
              (DieIDs sys socketID))
         (DieIDs sys socketID))
       (PackageIDs sys)"

definition distancesAsymmetric :: "System \<Rightarrow> policyError option" where
  "distancesAsymmetric sys =
     firstReturn (\<lambda>from.
       firstReturn (\<lambda>to.
         let d1 = NodeDistance sys from to;
             d2 = NodeDistance sys to from
         in if d1 \<noteq> d2 then Some (AsymmetricDistance from to d1 d2) else None)
         (NodeIDs sys))
       (NodeIDs sys)"

text \<open>The Go result \<open>(bool, error)\<close> is the sum: \<open>Inl e\<close> for a non-nil error,
  \<open>Inr omitDies\<close> otherwise.\<close>

definition checkHWTopology :: "System \<Rightarrow> policyError + bool" where
  "checkHWTopology sys =
     (case socketsShareNodes sys of
        Some err \<Rightarrow> Inl err
      | None \<Rightarrow>
          (case diesShareNodes sys of
             Some omitDies \<Rightarrow> Inr omitDies
           | None \<Rightarrow>
               (case distancesAsymmetric sys of
                  Some err \<Rightarrow> Inl err
                | None \<Rightarrow> Inr False)))"

subsection \<open>assignNUMANodes\<close>

text \<open>
  The Go maps \<open>xmem\<close> and \<open>dram\<close> are represented by the lists of their keys, in
  the order in which \<open>range\<close> visits them (their values are only logged).  The map
  \<open>surrogates\<close> yields the nil node for a missing key, \<open>None\<close> here.  The result map
  from pool node to NUMA ids is an association list keyed by \<open>'n option\<close>, the type
  of the nodes read from \<open>surrogates\<close>; reading a missing key yields the empty slice.
\<close>

type_synonym 'n assignment = "('n option \<times> ID list) list"

definition assignedTo :: "'n assignment \<Rightarrow> 'n option \<Rightarrow> ID list" where
  "assignedTo assigned n = (case map_of assigned n of None \<Rightarrow> [] | Some ids \<Rightarrow> ids)"

text \<open>The inner loop that collects the DRAM nodes closest to \<open>xmemID\<close> (the slice
  \<open>min\<close> of the source, \<open>minIDs\<close> here).\<close>

fun collectClosest :: "(ID \<Rightarrow> ID \<Rightarrow> int) \<Rightarrow> ID \<Rightarrow> ID list \<Rightarrow> ID list \<Rightarrow> ID list" where
  "collectClosest distance xmemID [] minIDs = minIDs"
| "collectClosest distance xmemID (dramID # rest) minIDs =
     collectClosest distance xmemID rest
       (case minIDs of
          [] \<Rightarrow> [dramID]
        | m0 # _ \<Rightarrow>
            (let minDist = distance xmemID m0;
                 newDist = distance xmemID dramID
             in if newDist = minDist then minIDs @ [dramID]
                else if newDist < minDist then [dramID]
                else minIDs))"

definition closestDRAM :: "(ID \<Rightarrow> ID \<Rightarrow> int) \<Rightarrow> ID list \<Rightarrow> ID \<Rightarrow> ID list" where
  "closestDRAM distance dram xmemID = sort (collectClosest distance xmemID dram [])"

text \<open>The loop that picks the taker among the closest DRAM nodes; the state is the
  pair \<open>(taker, takerID)\<close>.\<close>

fun pickTaker ::
  "(ID \<Rightarrow> 'n option) \<Rightarrow> 'n assignment \<Rightarrow> ID list \<Rightarrow> 'n option \<times> ID \<Rightarrow> 'n option \<times> ID" where
  "pickTaker surrogates assigned [] t = t"
| "pickTaker surrogates assigned (dramID # rest) (taker, takerID) =
     pickTaker surrogates assigned rest
       (if taker = None then (surrogates dramID, dramID)
        else if length (assignedTo assigned taker) > length (assignedTo assigned (surrogates dramID))
          then (surrogates dramID, dramID)
          else (taker, takerID))"

text \<open>The loop over \<open>closest\<close>; \<open>log.Panic\<close> ends it with an error.\<close>

fun assignXMEM ::
  "(ID \<Rightarrow> 'n option) \<Rightarrow> (ID \<times> ID list) list \<Rightarrow> 'n assignment \<Rightarrow> policyError + 'n assignment" where
  "assignXMEM surrogates [] assigned = Inr assigned"
| "assignXMEM surrogates ((xmemID, minIDs) # rest) assigned =
     (case pickTaker surrogates assigned minIDs (None, 0) of
        (None, takerID) \<Rightarrow> Inl (NoSurrogate xmemID)
      | (Some taker, takerID) \<Rightarrow>
          assignXMEM surrogates rest
            (AList.update (Some taker) (assignedTo assigned (Some taker) @ [xmemID]) assigned))"

text \<open>The final loop that puts each DRAM node in front of its own surrogate's list.
  The loop body ends with a log call that evaluates \<open>taker.Name()\<close>, which panics
  when the DRAM node has no surrogate and \<open>taker\<close> is the nil node (\<open>NilNode\<close>).\<close>

fun assignDRAM ::
  "(ID \<Rightarrow> 'n option) \<Rightarrow> ID list \<Rightarrow> 'n assignment \<Rightarrow> policyError + 'n assignment" where
  "assignDRAM surrogates [] assigned = Inr assigned"
| "assignDRAM surrogates (dramID # rest) assigned =
     (case surrogates dramID of
        None \<Rightarrow> Inl (NilNode dramID)
      | Some taker \<Rightarrow>
          assignDRAM surrogates rest
            (AList.update (Some taker) (dramID # assignedTo assigned (Some taker)) assigned))"

definition assignNUMANodes ::
  "(ID \<Rightarrow> ID \<Rightarrow> int) \<Rightarrow> (ID \<Rightarrow> 'n option) \<Rightarrow> ID list \<Rightarrow> ID list \<Rightarrow> policyError + 'n assignment" where
  "assignNUMANodes distance surrogates xmem dram =
     (let closest = map (\<lambda>xmemID. (xmemID, closestDRAM distance dram xmemID)) xmem
      in case assignXMEM surrogates closest [] of
           Inl err \<Rightarrow> Inl err
         | Inr assigned \<Rightarrow> assignDRAM surrogates dram assigned)"

subsection \<open>buildPoolsByTopology: the NUMA node to pool assignment\<close>

text \<open>\<open>idset.NewIDSet(ids...).SortedMembers()\<close>: the members of the set of \<open>ids\<close> in
  ascending order.\<close>

definition SortedMembers :: "ID list \<Rightarrow> ID list" where
  "SortedMembers ids = sort (remdups ids)"

text \<open>The loop that merges the HBM assignment into the PMEM one.\<close>

definition mergeAssigned :: "'n assignment \<Rightarrow> 'n assignment \<Rightarrow> 'n assignment" where
  "mergeAssigned assigned hbms =
     fold (\<lambda>(n, ids) a. AList.update n (SortedMembers (assignedTo a n @ ids)) a) hbms assigned"

text \<open>The part of \<open>buildPoolsByTopology\<close> that sets up the assignment of PMEM, HBM
  and DRAM nodes to pools, given the surrogates and the three collected node maps.\<close>

definition assignPools ::
  "(ID \<Rightarrow> ID \<Rightarrow> int) \<Rightarrow> (ID \<Rightarrow> 'n option) \<Rightarrow> ID list \<Rightarrow> ID list \<Rightarrow> ID list
     \<Rightarrow> policyError + 'n assignment" where
  "assignPools distance numaSurrogates pmemNodes hbmNodes dramNodes =
     (case assignNUMANodes distance numaSurrogates pmemNodes dramNodes of
        Inl err \<Rightarrow> Inl err
      | Inr assigned \<Rightarrow>
          (case assignNUMANodes distance numaSurrogates hbmNodes dramNodes of
             Inl err \<Rightarrow> Inl err
           | Inr hbms \<Rightarrow> Inr (mergeAssigned assigned hbms)))"

subsection \<open>Order of an assigned list\<close>

text \<open>The property of an assigned list that the DRAM ids come before all other ids:
  after the leading DRAM ids no DRAM id follows.\<close>

definition dramBeforeOthers :: "ID list \<Rightarrow> ID list \<Rightarrow> bool" where
  "dramBeforeOthers dram ids =
     list_all (\<lambda>i. i \<notin> set dram) (dropWhile (\<lambda>i. i \<in> set dram) ids)"

section \<open>Scoring and comparator\<close>

subsection \<open>affinityScore and combineHintScores\<close>

text \<open>\<open>math.Pow(Q, diff)\<close> for an integral \<open>diff\<close>, computed exactly.\<close>

definition mathPow :: "real \<Rightarrow> int \<Rightarrow> real" where
  "mathPow x k = (if 0 \<le> k then x ^ nat k else 1 / x ^ nat (- k))"

text \<open>Reading the affinity map \<open>map[int]int32\<close>: a missing key reads as 0.\<close>

definition affinityOf :: "(int \<rightharpoonup> int) \<Rightarrow> int \<Rightarrow> int" where
  "affinityOf affinities k = (case affinities k of None \<Rightarrow> 0 | Some a \<Rightarrow> a)"

text \<open>\<open>BreadthFirst\<close> and \<open>DepthFirst\<close> are declared outside the embedded
  sources; both visit the node and every node below it.  The sum that
  \<open>affinityScore\<close> takes over the visited nodes does not depend on the order in exact
  arithmetic.\<close>

fun BreadthFirst :: "Pool \<Rightarrow> Pool list" where
  "BreadthFirst (Pool i d nm h cs) = Pool i d nm h cs # concat (map BreadthFirst cs)"

fun DepthFirstFrom :: "Pool list \<Rightarrow> Pool \<Rightarrow> Node list" where
  "DepthFirstFrom up (Pool i d nm h cs) =
     concat (map (DepthFirstFrom (Pool i d nm h cs # up)) cs)
       @ [\<lparr>self = Pool i d nm h cs, ancestors = up\<rparr>]"

definition DepthFirst :: "Node \<Rightarrow> Node list" where
  "DepthFirst n = DepthFirstFrom (ancestors n) (self n)"

text \<open>The loop of \<open>affinityScore\<close> over the parents; its state is \<open>(q, score)\<close>.\<close>

fun parentsScore :: "(int \<rightharpoonup> int) \<Rightarrow> real \<Rightarrow> Pool list \<Rightarrow> real \<Rightarrow> real \<Rightarrow> real" where
  "parentsScore affinities Q [] q score = score"
| "parentsScore affinities Q (n # up) q score =
     parentsScore affinities Q up (q * Q)
       (score + q * real_of_int (affinityOf affinities (NodeID n)))"

definition affinityScore :: "(int \<rightharpoonup> int) \<Rightarrow> Node \<Rightarrow> real" where
  "affinityScore affinities node =
     (let Q = 0.75;
          score = parentsScore affinities Q (ancestors node) Q 0
      in fold (\<lambda>n score.
                 let diff = RootDistance n - RootDistance (self node);
                     q = mathPow Q diff;
                     a = affinityOf affinities (NodeID n)
                 in score + q * real_of_int a)
           (BreadthFirst (self node)) score)"

definition combineHintScores :: "(string \<times> real) list \<Rightarrow> real \<times> real" where
  "combineHintScores scores =
     (if length scores = 0 then (0, 0)
      else fold (\<lambda>(provider, score) (combined, filtered).
                   (combined * score,
                    if score \<noteq> 0
                    then (if filtered = 0 then score else filtered * score)
                    else filtered))
             scores (1, 0))"

subsection \<open>compareScores\<close>

text \<open>
  The comparator is a ladder of steps, each of which either returns a verdict or falls
  through to the next.  Each step of the source is a function to \<open>bool option\<close>:
  \<open>Some b\<close> for \<open>return b\<close>, \<open>None\<close> for falling through.
\<close>

text \<open>A node with insufficient isolated, reserved or shared capacity loses.\<close>

definition insufficientCapacity :: "cpuClass \<Rightarrow> Score \<Rightarrow> Score \<Rightarrow> bool option" where
  "insufficientCapacity cpuType score1 score2 =
     (let isolated1 = IsolatedCapacity score1; reserved1 = ReservedCapacity score1;
          shared1 = SharedCapacity score1;
          isolated2 = IsolatedCapacity score2; reserved2 = ReservedCapacity score2;
          shared2 = SharedCapacity score2
      in if cpuType = cpuNormal \<and>
            ((isolated2 < 0 \<and> isolated1 \<ge> 0) \<or> (shared2 \<le> 0 \<and> shared1 > 0)) then Some True
         else if cpuType = cpuNormal \<and>
            ((isolated1 < 0 \<and> isolated2 \<ge> 0) \<or> (shared1 \<le> 0 \<and> shared2 > 0)) then Some False
         else if cpuType = cpuReserved \<and> reserved2 < 0 \<and> reserved1 \<ge> 0 then Some True
         else if cpuType = cpuReserved \<and> reserved1 < 0 \<and> reserved2 \<ge> 0 then Some False
         else None)"

text \<open>The higher affinity score wins.\<close>

definition higherAffinity :: "real \<Rightarrow> real \<Rightarrow> bool option" where
  "higherAffinity a1 a2 =
     (if a1 > a2 then Some True else if a2 > a1 then Some False else None)"

text \<open>The better matching or tighter memory offer wins.\<close>

definition betterOffer :: "'s extern \<Rightarrow> Request \<Rightarrow> Offer option \<Rightarrow> Offer option \<Rightarrow> bool option" where
  "betterOffer ext request o1 o2 =
     (case (o1, o2) of
        (Some x1, None) \<Rightarrow> Some True
      | (None, Some x2) \<Rightarrow> Some False
      | (None, None) \<Rightarrow> None
      | (Some x1, Some x2) \<Rightarrow>
          (let m1 = OfferNodeMask x1; m2 = OfferNodeMask x2;
               t1 = memZoneType ext m1; t2 = memZoneType ext m2;
               memType = reqMemoryType request
           in if t1 = TypeMask ext memType \<and> t2 \<noteq> TypeMask ext memType then Some True
              else if t1 \<noteq> TypeMask ext memType \<and> t2 = TypeMask ext memType then Some False
              else if NodeMaskSize ext m1 < NodeMaskSize ext m2 then Some True
              else if NodeMaskSize ext m2 < NodeMaskSize ext m1 then Some False
              else None))"

text \<open>The node with the matching memory type wins.\<close>

definition matchingMemoryType :: "'s extern \<Rightarrow> Request \<Rightarrow> Pool \<Rightarrow> Pool \<Rightarrow> bool option" where
  "matchingMemoryType ext request node1 node2 =
     (let reqType = reqMemoryType request
      in if reqType \<noteq> memoryUnspec ext \<and> reqType \<noteq> memoryPreserve ext then
           (if HasMemoryType node1 reqType \<and> \<not> HasMemoryType node2 reqType then Some True
            else if \<not> HasMemoryType node1 reqType \<and> HasMemoryType node2 reqType then Some False
            else None)
         else None)"

text \<open>The better topology hint score wins; the step is entered when the first score
  has hint scores.\<close>

definition betterHints :: "Score \<Rightarrow> Score \<Rightarrow> int \<Rightarrow> int \<Rightarrow> int \<Rightarrow> int \<Rightarrow> bool option" where
  "betterHints score1 score2 depth1 depth2 id1 id2 =
     (let hScores1 = HintScores score1
      in if length hScores1 > 0 then
           (let hScores2 = HintScores score2;
                (hs1, nz1) = combineHintScores hScores1;
                (hs2, nz2) = combineHintScores hScores2
            in if hs1 > hs2 then Some True
               else if hs2 > hs1 then Some False
               else if hs1 = 0 \<and> nz1 > nz2 then Some True
               else if hs1 = 0 \<and> nz2 > nz1 then Some False
               else if hs1 = hs2 \<and> nz1 = nz2 \<and> (hs1 \<noteq> 0 \<or> nz1 \<noteq> 0) then
                 (if depth1 > depth2 then Some True
                  else if depth1 < depth2 then Some False
                  else Some (id1 < id2))
               else None)
         else None)"

text \<open>For a low-prio or high-prio CPU preference, the only fulfilling node wins.\<close>

definition onlyFulfilling :: "int \<Rightarrow> int \<Rightarrow> bool option" where
  "onlyFulfilling c1 c2 =
     (if c1 = c2 then None
      else if c1 \<ge> 0 \<and> c2 < 0 then Some True
      else if c1 < 0 \<and> c2 \<ge> 0 then Some False
      else None)"

definition preferredPrio :: "Request \<Rightarrow> Score \<Rightarrow> Score \<Rightarrow> bool option" where
  "preferredPrio request score1 score2 =
     (case reqCPUPrio request of
        lowPrio \<Rightarrow> onlyFulfilling (PrioCapacity score1 lowPrio) (PrioCapacity score2 lowPrio)
      | highPrio \<Rightarrow> onlyFulfilling (PrioCapacity score1 highPrio) (PrioCapacity score2 highPrio)
      | _ \<Rightarrow> None)"

text \<open>The lower node wins.\<close>

definition lowerNode :: "int \<Rightarrow> int \<Rightarrow> bool option" where
  "lowerNode depth1 depth2 =
     (if depth1 > depth2 then Some True else if depth1 < depth2 then Some False else None)"

text \<open>The remainder for reserved requests: more reserved capacity per colocated
  container wins.  Go's integer division truncates towards zero and panics on a zero
  divisor; the sum \<open>Colocated() + 1\<close> and the quotient wrap around.\<close>

definition reservedPerContainer :: "Score \<Rightarrow> Score \<Rightarrow> policyError + bool option" where
  "reservedPerContainer score1 score2 =
     (let c1 = wrap64 (Colocated score1 + 1);
          c2 = wrap64 (Colocated score2 + 1)
      in if c1 = 0 \<or> c2 = 0 then Inl DivideByZero
      else let r1 = wrap64 (ReservedCapacity score1 sdiv c1);
               r2 = wrap64 (ReservedCapacity score2 sdiv c2)
           in if r1 > r2 then Inr (Some True)
              else if r2 > r1 then Inr (Some False)
              else Inr None)"

text \<open>The remainder for normal requests.\<close>

definition normalRemainder :: "Request \<Rightarrow> Score \<Rightarrow> Score \<Rightarrow> int \<Rightarrow> int \<Rightarrow> bool option" where
  "normalRemainder request score1 score2 id1 id2 =
     (let isolated1 = IsolatedCapacity score1; shared1 = SharedCapacity score1;
          isolated2 = IsolatedCapacity score2; shared2 = SharedCapacity score2
      in if reqIsolate request \<and> (isolated1 > 0 \<or> isolated2 > 0) then
           (if isolated1 > isolated2 then Some True
            else if isolated2 > isolated1 then Some False
            else Some (id1 < id2))
         else
           (case (if reqCPUPrio request = normalPrio
                  then onlyFulfilling (PrioCapacity score1 normalPrio)
                         (PrioCapacity score2 normalPrio)
                  else None) of
              Some b \<Rightarrow> Some b
            | None \<Rightarrow>
                if reqFullCPUs request > 0 \<and> (shared1 > 0 \<or> shared2 > 0) then
                  (if shared1 > shared2 then Some True
                   else if shared2 > shared1 then Some False
                   else Some (id1 < id2))
                else if Colocated score1 < Colocated score2 then Some True
                else if Colocated score2 < Colocated score1 then Some False
                else if shared1 > shared2 then Some True
                else if shared2 > shared1 then Some False
                else None))"

text \<open>The first verdict of two steps.\<close>

definition orElse :: "bool option \<Rightarrow> bool option \<Rightarrow> bool option" where
  "orElse a b = (case a of Some r \<Rightarrow> Some r | None \<Rightarrow> b)"

text \<open>
  The comparison of two nodes.  The score map \<open>map[int]Score\<close> yields the nil score
  for a missing key, and the first method call on it panics (\<open>NilScore\<close>).
\<close>

definition compareNodes ::
  "'s extern \<Rightarrow> Request \<Rightarrow> (int \<rightharpoonup> Score) \<Rightarrow> (int \<rightharpoonup> int) \<Rightarrow> Node \<Rightarrow> Node
     \<Rightarrow> policyError + bool" where
  "compareNodes ext request scores affinity node1 node2 =
     (let depth1 = RootDistance (self node1); depth2 = RootDistance (self node2);
          id1 = NodeID (self node1); id2 = NodeID (self node2)
      in case (scores id1, scores id2) of
           (Some score1, Some score2) \<Rightarrow>
             (let cpuType = reqCPUType request;
                  a1 = affinityScore affinity node1;
                  a2 = affinityScore affinity node2;
                  o1 = ScoreOffer score1; o2 = ScoreOffer score2
              in case orElse (insufficientCapacity cpuType score1 score2)
                     (orElse (higherAffinity a1 a2)
                     (orElse (betterOffer ext request o1 o2)
                     (orElse (matchingMemoryType ext request (self node1) (self node2))
                     (orElse (betterHints score1 score2 depth1 depth2 id1 id2)
                     (orElse (preferredPrio request score1 score2)
                             (lowerNode depth1 depth2)))))) of
                   Some b \<Rightarrow> Inr b
                 | None \<Rightarrow>
                     if reqCPUType request = cpuReserved then
                       (case reservedPerContainer score1 score2 of
                          Inl err \<Rightarrow> Inl err
                        | Inr (Some b) \<Rightarrow> Inr b
                        | Inr None \<Rightarrow> Inr (id1 < id2))
                     else if reqCPUType request = cpuNormal then
                       (case normalRemainder request score1 score2 id1 id2 of
                          Some b \<Rightarrow> Inr b
                        | None \<Rightarrow> Inr (id1 < id2))
                     else Inr (id1 < id2))
         | _ \<Rightarrow> Inl NilScore)"

text \<open>\<open>compareScores\<close> compares the pools at two indices of a slice; an index out
  of range panics.\<close>

definition compareScores ::
  "'s extern \<Rightarrow> Request \<Rightarrow> Node list \<Rightarrow> (int \<rightharpoonup> Score) \<Rightarrow> (int \<rightharpoonup> int) \<Rightarrow> int \<Rightarrow> int
     \<Rightarrow> policyError + bool" where
  "compareScores ext request poolSlice scores affinity i j =
     (if 0 \<le> i \<and> i < int (length poolSlice) \<and> 0 \<le> j \<and> j < int (length poolSlice)
      then compareNodes ext request scores affinity (poolSlice ! nat i) (poolSlice ! nat j)
      else Inl IndexOutOfRange)"

subsection \<open>sortPoolsByScore\<close>

definition sortPoolsByScore ::
  "'s extern \<Rightarrow> Request \<Rightarrow> (int \<rightharpoonup> int) \<Rightarrow> 's policy
     \<Rightarrow> policyError + (int \<rightharpoonup> Score) \<times> Node list" where
  "sortPoolsByScore ext req aff p =
     (let scores = fold (\<lambda>n m. m(NodeID (self n) \<mapsto> GetScore ext (supplies p) n req))
                     (DepthFirst (root_pool p)) Map.empty;
          filteredPools = pools p
      in case sortSlice ext (compareNodes ext req scores aff) filteredPools of
           Inl err \<Rightarrow> Inl err
         | Inr sortedPools \<Rightarrow> Inr (scores, sortedPools))"

section \<open>Allocator: allocatePool\<close>

text \<open>The loop that applies the zone updates of an offer commit to the grants of
  other containers.\<close>

definition applyZoneUpdate :: "'s extern \<Rightarrow> string \<times> NodeMask \<Rightarrow> 's policy \<Rightarrow> 's policy" where
  "applyZoneUpdate ext u p =
     (case u of (cid, z) \<Rightarrow>
        (case map_of (grants p) cid of
           None \<Rightarrow> p
         | Some g \<Rightarrow>
             (let p1 = p\<lparr>grants := AList.update cid (g\<lparr>GetMemoryZone := z\<rparr>) (grants p)\<rparr>
              in if PinMemory p1 then SetCpusetMems (GetContainer g) (MemsetString ext z) p1
                 else p1)))"

text \<open>The common tail of \<open>allocatePool\<close>, from \<open>supply.Allocate\<close> on.\<close>

definition allocateFrom ::
  "'s extern \<Rightarrow> string \<Rightarrow> Node \<Rightarrow> Request \<Rightarrow> Offer \<Rightarrow> 's policy \<Rightarrow> policyError + Grant \<times> 's policy" where
  "allocateFrom ext container pool request offer p =
     (case Allocate ext (supplies p) pool request offer of
        None \<Rightarrow> Inl FailedAllocate
      | Some (grant, updates, supplies') \<Rightarrow>
          (let p1 = fold (applyZoneUpdate ext) updates (p\<lparr>supplies := supplies'\<rparr>);
               p2 = p1\<lparr>grants := AList.update container grant (grants p1)\<rparr>
           in Inr (grant, saveAllocations p2)))"

text \<open>The request \<open>allocatePool\<close> works with, after the fallback from reserved to
  normal CPUs.\<close>

definition effectiveRequest :: "'s extern \<Rightarrow> string \<Rightarrow> 's policy \<Rightarrow> Request" where
  "effectiveRequest ext container p =
     (let request = newRequest ext container
      in if FreeReservedCPUs ext (supplies p) (root_pool p) = {} \<and> reqCPUType request = cpuReserved
         then request\<lparr>reqCPUType := cpuNormal\<rparr>
         else request)"

definition allocatePool ::
  "'s extern \<Rightarrow> string \<Rightarrow> string \<Rightarrow> 's policy \<Rightarrow> policyError + Grant \<times> 's policy" where
  "allocatePool ext container poolHint p =
     (let request = effectiveRequest ext container p
      in if reqCPUType request = cpuReserved \<or> reqCPUType request = cpuPreserve then
           (let pool = root_pool p
            in case getMemOffer ext (supplies p) pool request of
                 None \<Rightarrow> Inl FailedOffer
               | Some offer \<Rightarrow> allocateFrom ext container pool request offer p)
         else
           (case calculatePoolAffinities ext p (reqContainer request) of
              None \<Rightarrow> Inl FailedAffinity
            | Some affinity \<Rightarrow>
                (case sortPoolsByScore ext request affinity p of
                   Inl err \<Rightarrow> Inl err
                 | Inr (scores, sortedPools) \<Rightarrow>
                     (case sortedPools of
                        [] \<Rightarrow> Inl NoSuitablePool
                      | best # others \<Rightarrow>
                          (let hinted = (if poolHint \<noteq> []
                                         then List.find (\<lambda>n. Name (self n) = poolHint) sortedPools
                                         else None);
                               pool = (case hinted of None \<Rightarrow> best | Some n \<Rightarrow> n)
                           in case scores (NodeID (self pool)) of
                                None \<Rightarrow> Inl NilScore
                              | Some score \<Rightarrow>
                                  (case ScoreOffer score of
                                     None \<Rightarrow> Inl FailedOffer
                                   | Some offer \<Rightarrow>
                                       allocateFrom ext container pool request offer p))))))"

section \<open>Balloons policy: metrics projection\<close>

text \<open>A balloon, as far as \<open>GetMetrics\<close> reads it.  \<open>Groups\<close> (group name to
  container count) and \<open>PodIDs\<close> (pod id to container ids) are Go maps, kept in the
  order \<open>range\<close> visits them.\<close>

record Balloon =
  blnDefName :: string
  blnDefCpuClass :: string
  blnDefMinCpus :: int
  blnDefMaxCpus :: int
  blnPrettyName :: string
  blnGroups :: "(string \<times> int) list"
  blnCpus :: CPUSet
  blnSharedIdleCpus :: CPUSet
  blnMems :: "ID set"
  blnPodIDs :: "(string \<times> string list) list"

record BalloonMetrics =
  DefName :: string
  CpuClass :: string
  MinCpus :: int
  MaxCpus :: int
  PrettyName :: string
  Groups :: string
  Cpus :: CPUSet
  CpusCount :: int
  Numas :: "string list"
  NumasCount :: int
  Dies :: "string list"
  DiesCount :: int
  Packages :: "string list"
  PackagesCount :: int
  SharedIdleCpus :: CPUSet
  SharedIdleCpusCount :: int
  CpusAllowed :: CPUSet
  CpusAllowedCount :: int
  Mems :: string
  ContainerNames :: string
  ContainerReqMilliCpus :: int

text \<open>What \<open>GetMetrics\<close> and \<open>Collect\<close> use of the rest of the balloons policy
  and of other packages.\<close>

record metricsExtern =
  CpuLocations :: "CPUSet \<Rightarrow> string list list"  \<comment> \<open>\<open>p.cpuTree.CpuLocations\<close>\<close>
  LookupContainer :: "string \<Rightarrow> string option"
    \<comment> \<open>the pretty name of the container \<open>p.cch.LookupContainer\<close> finds\<close>
  containerRequestedMilliCpus :: "string \<Rightarrow> int"
  validUTF8 :: "string \<Rightarrow> bool"  \<comment> \<open>\<open>utf8.ValidString\<close>\<close>
  cpusString :: "CPUSet \<Rightarrow> string"  \<comment> \<open>\<open>cpuset.CPUSet.String()\<close>\<close>
  memsString :: "ID set \<Rightarrow> string"  \<comment> \<open>\<open>bln.Mems.String()\<close>\<close>

text \<open>One emitted metric: the gauge value and the label values in the order of the
  descriptor.\<close>

record Sample =
  gauge :: real
  labelValues :: "string list"

subsection \<open>Library functions: strings.Join, strconv.Itoa, sort.Strings\<close>

fun Join :: "string list \<Rightarrow> string \<Rightarrow> string" where
  "Join [] sep = []"
| "Join [x] sep = x"
| "Join (x # y # ys) sep = x @ sep @ Join (y # ys) sep"

fun decimal :: "nat \<Rightarrow> string" where
  "decimal n =
     (if n < 10 then [''0123456789'' ! n]
      else decimal (n div 10) @ [''0123456789'' ! (n mod 10)])"

definition Itoa :: "int \<Rightarrow> string" where
  "Itoa i = (if i < 0 then CHR ''-'' # decimal (nat (- i)) else decimal (nat i))"

text \<open>\<open>sort.Strings\<close> sorts by bytewise lexicographic order, the order of
  \<open>string\<close> here.\<close>

definition sortStrings :: "string list \<Rightarrow> string list" where
  "sortStrings xs = sort xs"

subsection \<open>GetMetrics\<close>

text \<open>The loop collecting the names of the groups with containers.\<close>

definition collectGroups :: "(string \<times> int) list \<Rightarrow> string list" where
  "collectGroups groupCounts =
     fold (\<lambda>(group, cCount) groups. if cCount > 0 then groups @ [group] else groups)
       groupCounts []"

text \<open>The nested loop over pods and their containers; its state is the list of
  container names and the total of requested milli-CPUs.\<close>

definition collectContainers ::
  "metricsExtern \<Rightarrow> (string \<times> string list) list \<Rightarrow> string list \<times> int" where
  "collectContainers mx podIDs =
     fold (\<lambda>(podID, containerIDs) st.
             fold (\<lambda>containerID (cNames, req).
                     case LookupContainer mx containerID of
                       Some prettyName \<Rightarrow>
                         (cNames @ [prettyName],
                          wrap64 (req + containerRequestedMilliCpus mx containerID))
                     | None \<Rightarrow> (cNames, req))
               containerIDs st)
       podIDs ([], 0)"

definition balloonMetrics :: "metricsExtern \<Rightarrow> Balloon \<Rightarrow> BalloonMetrics" where
  "balloonMetrics mx bln =
     (let cpuLoc = CpuLocations mx (blnCpus bln);
          groups = sortStrings (collectGroups (blnGroups bln));
          hasLoc = (length cpuLoc > 3);
          numas = (if hasLoc then cpuLoc ! 3 else []);
          dies = (if hasLoc then cpuLoc ! 2 else []);
          packages = (if hasLoc then cpuLoc ! 1 else []);
          (cNames, req) = collectContainers mx (blnPodIDs bln)
      in \<lparr>DefName = blnDefName bln,
          CpuClass = blnDefCpuClass bln,
          MinCpus = blnDefMinCpus bln,
          MaxCpus = blnDefMaxCpus bln,
          PrettyName = blnPrettyName bln,
          Groups = Join groups '','',
          Cpus = blnCpus bln,
          CpusCount = int (card (blnCpus bln)),
          Numas = numas,
          NumasCount = int (length numas),
          Dies = dies,
          DiesCount = int (length dies),
          Packages = packages,
          PackagesCount = int (length packages),
          SharedIdleCpus = blnSharedIdleCpus bln,
          SharedIdleCpusCount = int (card (blnSharedIdleCpus bln)),
          CpusAllowed = blnCpus bln \<union> blnSharedIdleCpus bln,
          CpusAllowedCount = int (card (blnCpus bln \<union> blnSharedIdleCpus bln)),
          Mems = memsString mx (blnMems bln),
          ContainerNames = Join (sortStrings cNames) '','',
          ContainerReqMilliCpus = req\<rparr>)"

definition GetMetrics :: "metricsExtern \<Rightarrow> Balloon list \<Rightarrow> BalloonMetrics list" where
  "GetMetrics mx balloons = map (balloonMetrics mx) balloons"

subsection \<open>Collect\<close>

definition collectSample :: "metricsExtern \<Rightarrow> BalloonMetrics \<Rightarrow> Sample" where
  "collectSample mx bm =
     \<lparr>gauge = real (card (Cpus bm)),
      labelValues =
        [DefName bm,
         CpuClass bm,
         Itoa (MinCpus bm),
         Itoa (MaxCpus bm),
         PrettyName bm,
         Groups bm,
         cpusString mx (Cpus bm),
         Itoa (CpusCount bm),
         Join (Numas bm) '','',
         Itoa (NumasCount bm),
         Join (Dies bm) '','',
         Itoa (DiesCount bm),
         Join (Packages bm) '','',
         Itoa (PackagesCount bm),
         cpusString mx (SharedIdleCpus bm),
         Itoa (SharedIdleCpusCount bm),
         cpusString mx (CpusAllowed bm),
         Itoa (CpusAllowedCount bm),
         Mems bm,
         ContainerNames bm,
         Itoa (ContainerReqMilliCpus bm)]\<rparr>"

text \<open>
  \<open>prometheus.MustNewConstMetric\<close> panics when a label value is not valid UTF-8.  The
  loop of \<open>Collect\<close> over the balloons yields the samples sent to the channel and, when
  a sample could not be built, the panic that ended the loop.
\<close>

fun collectLoop :: "metricsExtern \<Rightarrow> BalloonMetrics list \<Rightarrow> Sample list \<times> policyError option" where
  "collectLoop mx [] = ([], None)"
| "collectLoop mx (bm # rest) =
     (let sample = collectSample mx bm
      in if list_all (validUTF8 mx) (labelValues sample)
         then (case collectLoop mx rest of (emitted, err) \<Rightarrow> (sample # emitted, err))
         else ([], Some InvalidLabelValue))"

text \<open>The receiver of \<open>Collect\<close> may be nil (\<open>None\<close>), in which case nothing is
  emitted.\<close>

definition Collect_metrics ::
  "metricsExtern \<Rightarrow> BalloonMetrics list option \<Rightarrow> Sample list \<times> policyError option" where
  "Collect_metrics mx m =
     (case m of None \<Rightarrow> ([], None) | Some balloons \<Rightarrow> collectLoop mx balloons)"

subsection \<open>The container names of a balloon\<close>

text \<open>The pretty names of the containers of a balloon that the cache finds, in the
  order of the pod map; the property of the containers label is stated with it.\<close>

definition foundContainerNames :: "metricsExtern \<Rightarrow> (string \<times> string list) list \<Rightarrow> string list" where
  "foundContainerNames mx podIDs = List.map_filter (LookupContainer mx) (concat (map snd podIDs))"

section \<open>A concrete configuration\<close>

text \<open>A single-socket machine whose only pool is the root, an instance of the external
  functions and a policy state with one granted container.  The theorems below are
  instantiated at these values.\<close>

definition examplePool :: Pool where
  "examplePool = Pool 0 0 ''socket #0'' (\<lambda>t. True) []"

definition exampleNode :: Node where
  "exampleNode = \<lparr>self = examplePool, ancestors = []\<rparr>"

definition exampleCPUSetString :: "CPUSet \<Rightarrow> string" where
  "exampleCPUSetString cpus = Join (map Itoa (sorted_list_of_set cpus)) '',''"

definition exampleGrantFor :: "Request \<Rightarrow> Grant" where
  "exampleGrantFor r =
     \<lparr>GetContainer = reqContainer r, CPUType = reqCPUType r, ExclusiveCPUs = {},
      ReservedCPUs = {}, SharedCPUs = {2, 3}, SharedPortion = 500, ReservedPortion = 0,
      MemoryType = reqMemoryType r, GetMemoryZone = 1, GetCPUNode = exampleNode\<rparr>"

definition exampleScore :: Score where
  "exampleScore =
     \<lparr>IsolatedCapacity = 0, ReservedCapacity = 0, SharedCapacity = 1500, Colocated = 0,
      HintScores = [], PrioCapacity = (\<lambda>prio. 0), ScoreOffer = Some \<lparr>OfferNodeMask = 1\<rparr>\<rparr>"

definition exampleExt :: "unit extern" where
  "exampleExt =
     \<lparr>hideHyperthreads = (\<lambda>c. False),
      SingleThreadForCPUs = (\<lambda>cpus. cpus),
      CPUSetString = exampleCPUSetString,
      MemsetString = (\<lambda>m. Itoa (int m)),
      MilliCPUToShares = (\<lambda>m. m * 1024 div 1000),
      SharableCPUs = (\<lambda>s n. {2, 3}),
      FreeReservedCPUs = (\<lambda>s n. {}),
      Release = (\<lambda>g s. s),
      memoryPreserve = 8,
      memoryUnspec = 0,
      TypeMask = (\<lambda>t. t),
      memZoneType = (\<lambda>m. 1),
      NodeMaskSize = (\<lambda>m. 1),
      newRequest = (\<lambda>c. \<lparr>reqContainer = c, reqCPUType = cpuReserved, reqCPUPrio = nonePrio,
                           reqMemoryType = 0, reqIsolate = False, reqFullCPUs = 0\<rparr>),
      getMemOffer = (\<lambda>s n r. Some \<lparr>OfferNodeMask = 1\<rparr>),
      calculatePoolAffinities = (\<lambda>p c. Some Map.empty),
      GetScore = (\<lambda>s n r. exampleScore),
      Allocate = (\<lambda>s n r offer. Some (exampleGrantFor r, [], s)),
      sortSlice = (\<lambda>less xs. Inr xs)\<rparr>"

definition exampleShared :: Grant where
  "exampleShared =
     \<lparr>GetContainer = ''c1'', CPUType = cpuNormal, ExclusiveCPUs = {},
      ReservedCPUs = {}, SharedCPUs = {0, 1, 2, 3}, SharedPortion = 500, ReservedPortion = 0,
      MemoryType = 1, GetMemoryZone = 1, GetCPUNode = exampleNode\<rparr>"

definition exampleReserved :: Grant where
  "exampleReserved =
     \<lparr>GetContainer = ''c2'', CPUType = cpuReserved, ExclusiveCPUs = {},
      ReservedCPUs = {7}, SharedCPUs = {}, SharedPortion = 0, ReservedPortion = 250,
      MemoryType = 1, GetMemoryZone = 1, GetCPUNode = exampleNode\<rparr>"

definition examplePolicy :: "unit policy" where
  "examplePolicy =
     \<lparr>PinCPU = True, PinMemory = True, root_pool = exampleNode, pools = [exampleNode],
      grants = [(''c1'', exampleShared)],
      containers = (\<lambda>c. \<lparr>CpusetCpus = ''0,1,2,3'', CpusetMems = ''0'', CPUShares = 2\<rparr>),
      supplies = (), savedAllocations = [], saveCount = 0\<rparr>"

text \<open>A machine with one package whose two dies share NUMA node 1 and whose
  distance matrix is not symmetric.\<close>

definition sharedDieSystem :: System where
  "sharedDieSystem =
     \<lparr>PackageIDs = [0],
      PackageNodeIDs = (\<lambda>pkg. [0, 1]),
      DieIDs = (\<lambda>pkg. [0, 1]),
      DieNodeIDs = (\<lambda>pkg die. if die = 0 then [0, 1] else [1]),
      NodeIDs = [0, 1],
      NodeDistance = (\<lambda>a b. if a = b then 10 else if a < b then 20 else 21)\<rparr>"

text \<open>A socket with two NUMA leaves A and B, a request for two isolated CPUs, and
  scores for it: leaf A is not short of isolated CPUs but has no sharable capacity
  left, leaf B is two isolated CPUs short but has sharable capacity to spare.\<close>

definition leafA :: Pool where
  "leafA = Pool 1 1 ''NUMA node #0'' (\<lambda>t. True) []"

definition leafB :: Pool where
  "leafB = Pool 2 1 ''NUMA node #1'' (\<lambda>t. True) []"

definition socketPool :: Pool where
  "socketPool = Pool 0 0 ''socket #0'' (\<lambda>t. True) [leafA, leafB]"

definition nodeA :: Node where
  "nodeA = \<lparr>self = leafA, ancestors = [socketPool]\<rparr>"

definition nodeB :: Node where
  "nodeB = \<lparr>self = leafB, ancestors = [socketPool]\<rparr>"

definition isolatedRequest :: Request where
  "isolatedRequest =
     \<lparr>reqContainer = ''c4'', reqCPUType = cpuNormal, reqCPUPrio = nonePrio,
      reqMemoryType = 0, reqIsolate = True, reqFullCPUs = 2\<rparr>"

definition scoreA :: Score where
  "scoreA =
     \<lparr>IsolatedCapacity = 0, ReservedCapacity = 0, SharedCapacity = 0, Colocated = 0,
      HintScores = [], PrioCapacity = (\<lambda>prio. 0), ScoreOffer = Some \<lparr>OfferNodeMask = 1\<rparr>\<rparr>"

definition scoreB :: Score where
  "scoreB =
     \<lparr>IsolatedCapacity = - 2, ReservedCapacity = 0, SharedCapacity = 2000, Colocated = 0,
      HintScores = [], PrioCapacity = (\<lambda>prio. 0), ScoreOffer = Some \<lparr>OfferNodeMask = 1\<rparr>\<rparr>"

definition scoresAB :: "int \<rightharpoonup> Score" where
  "scoresAB = [1 \<mapsto> scoreA, 2 \<mapsto> scoreB]"

text \<open>A socket with a NUMA leaf A and a die that has a NUMA leaf C below it, a request
  for shared CPUs, and scores in which only leaf A has a topology hint score.\<close>

definition sharedRequest :: Request where
  "sharedRequest =
     \<lparr>reqContainer = ''c5'', reqCPUType = cpuNormal, reqCPUPrio = nonePrio,
      reqMemoryType = 0, reqIsolate = False, reqFullCPUs = 0\<rparr>"

definition leafC :: Pool where
  "leafC = Pool 3 2 ''NUMA node #2'' (\<lambda>t. True) []"

definition diePool :: Pool where
  "diePool = Pool 2 1 ''die #1'' (\<lambda>t. True) [leafC]"

definition dieSocketPool :: Pool where
  "dieSocketPool = Pool 0 0 ''socket #0'' (\<lambda>t. True) [leafA, diePool]"

definition hintedNodeA :: Node where
  "hintedNodeA = \<lparr>self = leafA, ancestors = [dieSocketPool]\<rparr>"

definition nodeC :: Node where
  "nodeC = \<lparr>self = leafC, ancestors = [diePool, dieSocketPool]\<rparr>"

definition scoresHinted :: "int \<rightharpoonup> Score" where
  "scoresHinted =
     [1 \<mapsto> exampleScore\<lparr>HintScores := [(''gpu0'', 1 / 2)]\<rparr>, 3 \<mapsto> exampleScore]"

text \<open>NUMA distances that grow with the difference of the node ids, and surrogates
  for the DRAM nodes 1 and 2.\<close>

definition exampleDistance :: "ID \<Rightarrow> ID \<Rightarrow> int" where
  "exampleDistance a b = 10 + \<bar>a - b\<bar>"

definition exampleSurrogates :: "ID \<Rightarrow> string option" where
  "exampleSurrogates d = (if d = 1 then Some ''socket #0'' else if d = 2 then Some ''socket #1'' else None)"

text \<open>A balloon with three groups, one of them without containers, and two pods; the
  same balloon with its two maps visited in another order; and a balloon with a
  negative group count.  The example's UTF-8 test accepts the strings of 7-bit
  characters, which all its label values are.\<close>

definition exampleMetricsExtern :: metricsExtern where
  "exampleMetricsExtern =
     \<lparr>CpuLocations = (\<lambda>cpus. []),
      LookupContainer = (\<lambda>c. if c = ''c1'' then Some ''pod0/c1''
                              else if c = ''c2'' then Some ''pod1/c2'' else None),
      containerRequestedMilliCpus = (\<lambda>c. 500),
      validUTF8 = list_all (\<lambda>c. of_char c < (128 :: nat)),
      cpusString = exampleCPUSetString,
      memsString = exampleCPUSetString\<rparr>"

definition exampleBalloon :: Balloon where
  "exampleBalloon =
     \<lparr>blnDefName = ''default'', blnDefCpuClass = ''normal'', blnDefMinCpus = 1,
      blnDefMaxCpus = 4, blnPrettyName = ''default[0]'',
      blnGroups = [(''g2'', 1), (''g1'', 2), (''g0'', 0)],
      blnCpus = {2, 3}, blnSharedIdleCpus = {}, blnMems = {0},
      blnPodIDs = [(''pod1'', [''c2'']), (''pod0'', [''c1'', ''c7''])]\<rparr>"

definition negativeCountBalloon :: Balloon where
  "negativeCountBalloon = exampleBalloon\<lparr>blnGroups := [(''g1'', - 1), (''g2'', 1)]\<rparr>"

definition exampleBalloonReordered :: Balloon where
  "exampleBalloonReordered =
     exampleBalloon\<lparr>blnGroups := [(''g0'', 0), (''g1'', 2), (''g2'', 1)],
                     blnPodIDs := [(''pod0'', [''c1'', ''c7'']), (''pod1'', [''c2''])]\<rparr>"

section \<open>Allocator: verified properties\<close>

lemma exampleCPUSetString_23: "exampleCPUSetString {2, 3} = ''2,3''"
  by code_simp

text \<open>
  Claim C9.  For a container that has no grant in the allocations table,
  \<open>releasePool\<close> returns \<open>(nil, false)\<close> and leaves the whole policy state as it
  was: no supply is released, the allocations table is not modified and
  \<open>saveAllocations\<close> does not run.
\<close>

theorem releasePool_without_grant:
  "map_of (grants p) container = None \<Longrightarrow> releasePool ext container p = (None, p)"
  by (simp add: releasePool_def)

theorem releasePool_without_grant_witness:
  "map_of (grants examplePolicy) ''c9'' = None
   \<and> releasePool exampleExt ''c9'' examplePolicy = (None, examplePolicy)"
  using releasePool_without_grant [of examplePolicy "''c9''" exampleExt]
  by (simp add: examplePolicy_def)

text \<open>
  Claim C10.  When \<open>updateSharedAllocations\<close> is called with a trigger grant whose
  CPU kind is reserved, it returns at once: the policy state, and with it the
  cpuset-cpus of every container, is unchanged.
\<close>

theorem updateSharedAllocations_reserved_trigger:
  "CPUType grant = cpuReserved \<Longrightarrow> updateSharedAllocations ext (Some grant) p = p"
  by (simp add: updateSharedAllocations_def)

theorem updateSharedAllocations_reserved_trigger_witness:
  "CPUType exampleReserved = cpuReserved
   \<and> updateSharedAllocations exampleExt (Some exampleReserved) examplePolicy = examplePolicy"
  using updateSharedAllocations_reserved_trigger [of exampleReserved exampleExt examplePolicy]
  by (simp add: exampleReserved_def)

text \<open>
  Claim C7, as stated, fails: with the option \<open>PinCPU\<close> disabled, \<open>applyGrant\<close>
  does not touch the CPU shares of the container of a normal grant.
\<close>

theorem applyGrant_shares_counterexample:
  "CPUType exampleShared \<noteq> cpuPreserve
   \<and> CPUShares (containers (applyGrant exampleExt exampleShared (examplePolicy\<lparr>PinCPU := False\<rparr>))
        (GetContainer exampleShared))
     \<noteq> MilliCPUToShares exampleExt
         (if SharedPortion exampleShared > 0 then SharedPortion exampleShared
          else 1000 * int (card (ExclusiveCPUs exampleShared)))"
  by (simp add: applyGrant_def exampleShared_def examplePolicy_def exampleExt_def
      SetCpusetMems_def)

text \<open>
  Claim C7, amended.  When \<open>PinCPU\<close> is enabled, for every grant whose CPU kind is
  normal or reserved, \<open>applyGrant\<close> sets the CPU shares of the grant's container to
  \<open>MilliCPUToShares\<close> of the effective milli-CPU: the shared portion (the reserved
  portion for the reserved kind) when that portion is not 0, and otherwise 1000 times
  the size of the exclusive CPU set.
\<close>

theorem applyGrant_shares:
  assumes "PinCPU p" and "CPUType grant = cpuNormal \<or> CPUType grant = cpuReserved"
  shows "CPUShares (containers (applyGrant ext grant p) (GetContainer grant))
     = MilliCPUToShares ext
         (let portion = (if CPUType grant = cpuReserved then ReservedPortion grant
                         else SharedPortion grant)
          in if portion \<noteq> 0 then portion else 1000 * int (card (ExclusiveCPUs grant)))"
  using assms
  by (auto simp add: applyGrant_def Let_def SetCpusetMems_def SetCPUShares_def
      SetCpusetCpus_def setPreferredCpusetCpus_def)

theorem applyGrant_shares_witness:
  "PinCPU examplePolicy \<and> (CPUType exampleShared = cpuNormal \<or> CPUType exampleShared = cpuReserved)
   \<and> CPUShares (containers (applyGrant exampleExt exampleShared examplePolicy) ''c1'') = 512"
  using applyGrant_shares [of examplePolicy exampleShared exampleExt]
  by (simp add: examplePolicy_def exampleShared_def exampleExt_def)

text \<open>
  Claim C6, as stated, fails: with the option \<open>PinCPU\<close> disabled, a normal grant
  with a shared portion and no exclusive CPUs is not skipped, and yet its container is
  not re-pinned to the sharable CPU set of its pool.
\<close>

theorem updateSharedAllocations_repins_counterexample:
  "(''c1'', exampleShared) \<in> set (grants (examplePolicy\<lparr>PinCPU := False\<rparr>))
   \<and> CPUType exampleShared = cpuNormal
   \<and> SharedPortion exampleShared = 500
   \<and> ExclusiveCPUs exampleShared = {}
   \<and> CpusetCpus (containers
         (updateSharedAllocations exampleExt None (examplePolicy\<lparr>PinCPU := False\<rparr>)) ''c1'')
       \<noteq> CPUSetString exampleExt
           (SharableCPUs exampleExt (supplies (examplePolicy\<lparr>PinCPU := False\<rparr>))
              (GetCPUNode exampleShared))"
  by (simp add: examplePolicy_def exampleShared_def exampleExt_def exampleCPUSetString_23
      updateSharedAllocations_def updateSharedAllocation_def)


lemma updateSharedAllocation_frame:
  "PinCPU (updateSharedAllocation ext trig other q) = PinCPU q"
  "supplies (updateSharedAllocation ext trig other q) = supplies q"
  by (simp_all add: updateSharedAllocation_def setPreferredCpusetCpus_def SetCpusetCpus_def
      Let_def split: option.splits)

lemma updateSharedAllocation_other:
  "c \<noteq> GetContainer other \<Longrightarrow> containers (updateSharedAllocation ext trig other q) c = containers q c"
  by (simp add: updateSharedAllocation_def setPreferredCpusetCpus_def SetCpusetCpus_def
      Let_def split: option.splits)

lemma updateSharedAllocations_fold_other:
  "c \<notin> set (map (\<lambda>x. GetContainer (snd x)) xs) \<Longrightarrow>
   containers (fold (\<lambda>(cid, other). updateSharedAllocation ext trig other) xs q) c = containers q c"
  by (induction xs arbitrary: q) (auto simp: updateSharedAllocation_other)

lemma updateSharedAllocations_fold_at:
  assumes "distinct (map (\<lambda>x. GetContainer (snd x)) xs)" and "(cid, other) \<in> set xs"
  shows "\<exists>q'. PinCPU q' = PinCPU q \<and> supplies q' = supplies q
           \<and> containers q' (GetContainer other) = containers q (GetContainer other)
           \<and> containers (fold (\<lambda>(cid, other). updateSharedAllocation ext trig other) xs q)
                (GetContainer other)
             = containers (updateSharedAllocation ext trig other q') (GetContainer other)"
  using assms
proof (induction xs arbitrary: q)
  case Nil
  then show ?case by simp
next
  case (Cons x xs)
  obtain k o' where x: "x = (k, o')" by (cases x)
  show ?case
  proof (cases "x = (cid, other)")
    case True
    with Cons.prems have "GetContainer other \<notin> set (map (\<lambda>x. GetContainer (snd x)) xs)" by auto
    then have "containers (fold (\<lambda>(cid, other). updateSharedAllocation ext trig other) (x # xs) q)
                (GetContainer other)
             = containers (updateSharedAllocation ext trig other q) (GetContainer other)"
      using True by (simp add: updateSharedAllocations_fold_other)
    then show ?thesis by blast
  next
    case False
    with Cons.prems have mem: "(cid, other) \<in> set xs" and d: "distinct (map (\<lambda>x. GetContainer (snd x)) xs)"
      by auto
    from Cons.prems mem x have ne: "GetContainer other \<noteq> GetContainer o'"
      by force
    from Cons.IH [OF d mem, of "updateSharedAllocation ext trig o' q"]
    obtain q' where q': "PinCPU q' = PinCPU (updateSharedAllocation ext trig o' q)"
      "supplies q' = supplies (updateSharedAllocation ext trig o' q)"
      "containers q' (GetContainer other)
         = containers (updateSharedAllocation ext trig o' q) (GetContainer other)"
      "containers (fold (\<lambda>(cid, other). updateSharedAllocation ext trig other) xs
          (updateSharedAllocation ext trig o' q)) (GetContainer other)
         = containers (updateSharedAllocation ext trig other q') (GetContainer other)"
      by blast
    show ?thesis
      apply (rule exI [of _ q'])
      using q' ne x
      by (simp add: updateSharedAllocation_frame updateSharedAllocation_other)
  qed
qed

lemma updateSharedAllocation_at:
  "PinCPU q \<Longrightarrow> containers (updateSharedAllocation ext trig other q) (GetContainer other) =
     (if (\<exists>g. trig = Some g \<and> GetContainer other = GetContainer g)
         \<or> CPUType other = cpuReserved \<or> CPUType other = cpuPreserve
         \<or> (SharedPortion other = 0 \<and> ExclusiveCPUs other \<noteq> {})
      then containers q (GetContainer other)
      else (containers q (GetContainer other))
             \<lparr>CpusetCpus := CPUSetString ext
                (let shared = SharableCPUs ext (supplies q) (GetCPUNode other);
                     cpus = (if ExclusiveCPUs other = {} then shared
                             else ExclusiveCPUs other \<union> shared)
                 in if hideHyperthreads ext (GetContainer other)
                    then SingleThreadForCPUs ext cpus else cpus)\<rparr>)"
  by (cases trig) (simp_all add: updateSharedAllocation_def setPreferredCpusetCpus_def SetCpusetCpus_def
      Let_def)

text \<open>
  Claim C6, amended.  When \<open>PinCPU\<close> is enabled and the trigger grant is absent or
  not of kind reserved, \<open>updateSharedAllocations\<close> leaves the container of a grant
  of the table untouched exactly when the grant is the trigger's, or its CPU kind is
  reserved or preserve, or its shared portion is 0 and its exclusive CPU set is
  non-empty.  The container of every other grant gets its cpuset-cpus set to the string
  of the pool's current sharable CPU set if the exclusive set is empty, and of the union
  of the exclusive set and that sharable set otherwise, reduced to one thread per core
  when the pod prefers hidden hyperthreads.  (The grants of the table belong to distinct
  containers.)
\<close>

theorem updateSharedAllocations_repins:
  assumes "PinCPU p"
    and "case trigger of None \<Rightarrow> True | Some g \<Rightarrow> CPUType g \<noteq> cpuReserved"
    and "distinct (map (\<lambda>x. GetContainer (snd x)) (grants p))"
    and "(cid, other) \<in> set (grants p)"
  shows "containers (updateSharedAllocations ext trigger p) (GetContainer other) =
     (if (\<exists>g. trigger = Some g \<and> GetContainer other = GetContainer g)
         \<or> CPUType other = cpuReserved \<or> CPUType other = cpuPreserve
         \<or> (SharedPortion other = 0 \<and> ExclusiveCPUs other \<noteq> {})
      then containers p (GetContainer other)
      else (containers p (GetContainer other))
             \<lparr>CpusetCpus := CPUSetString ext
                (let shared = SharableCPUs ext (supplies p) (GetCPUNode other);
                     cpus = (if ExclusiveCPUs other = {} then shared
                             else ExclusiveCPUs other \<union> shared)
                 in if hideHyperthreads ext (GetContainer other)
                    then SingleThreadForCPUs ext cpus else cpus)\<rparr>)"
proof -
  have unf: "updateSharedAllocations ext trigger p
      = fold (\<lambda>(cid, other). updateSharedAllocation ext trigger other) (grants p) p"
    using assms(2) by (cases trigger) (simp_all add: updateSharedAllocations_def)
  from updateSharedAllocations_fold_at [OF assms(3) assms(4), of p ext trigger]
  obtain q' where q': "PinCPU q' = PinCPU p" "supplies q' = supplies p"
      "containers q' (GetContainer other) = containers p (GetContainer other)"
      "containers (fold (\<lambda>(cid, other). updateSharedAllocation ext trigger other) (grants p) p)
          (GetContainer other)
         = containers (updateSharedAllocation ext trigger other q') (GetContainer other)"
    by blast
  have pin: "PinCPU q'" using q'(1) assms(1) by simp
  show ?thesis
    unfolding unf q'(4) updateSharedAllocation_at [OF pin] q'(2,3) ..
qed

theorem updateSharedAllocations_repins_witness:
  "PinCPU examplePolicy
   \<and> distinct (map (\<lambda>x. GetContainer (snd x)) (grants examplePolicy))
   \<and> (''c1'', exampleShared) \<in> set (grants examplePolicy)
   \<and> CpusetCpus (containers (updateSharedAllocations exampleExt None examplePolicy) ''c1'')
       = ''2,3''"
  using updateSharedAllocations_repins [of examplePolicy None "''c1''" exampleShared exampleExt]
  by (simp add: examplePolicy_def exampleShared_def exampleExt_def exampleCPUSetString_23)



lemma betterOffer_newRequest:
  "betterOffer (ext\<lparr>newRequest := f\<rparr>) = betterOffer ext"
  by (intro ext) (simp add: betterOffer_def Let_def split: option.splits)

lemma matchingMemoryType_newRequest:
  "matchingMemoryType (ext\<lparr>newRequest := f\<rparr>) = matchingMemoryType ext"
  by (intro ext) (simp add: matchingMemoryType_def)

lemma compareNodes_newRequest:
  "compareNodes (ext\<lparr>newRequest := f\<rparr>) = compareNodes ext"
  by (intro ext) (simp add: compareNodes_def betterOffer_newRequest matchingMemoryType_newRequest
      cong: option.case_cong prod.case_cong)

lemma applyZoneUpdate_newRequest:
  "applyZoneUpdate (ext\<lparr>newRequest := f\<rparr>) = applyZoneUpdate ext"
  by (intro ext) (simp add: applyZoneUpdate_def Let_def split: prod.splits option.splits)

lemma allocateFrom_newRequest:
  "allocateFrom (ext\<lparr>newRequest := f\<rparr>) = allocateFrom ext"
  by (intro ext) (simp add: allocateFrom_def applyZoneUpdate_newRequest cong: option.case_cong prod.case_cong)

lemma sortPoolsByScore_newRequest:
  "sortPoolsByScore (ext\<lparr>newRequest := f\<rparr>) = sortPoolsByScore ext"
  by (intro ext) (simp add: sortPoolsByScore_def compareNodes_newRequest cong: sum.case_cong)

text \<open>
  Claim C3.  When the request built for the container has CPU kind reserved and the
  free supply of the root pool has no reserved CPUs, the request \<open>allocatePool\<close>
  works with is the container's request with nothing but its CPU kind changed, to
  normal.  The change is made before pool selection: \<open>allocatePool\<close> does not take
  the root pool with an offer from \<open>getMemOffer\<close>, as it does for a reserved request,
  but scores and sorts the pools for the changed request, picks the hinted or the best
  pool and allocates the changed request from it; it behaves exactly as for the same
  request of kind normal.  Every grant it returns has CPU kind normal, given that
  \<open>Allocate\<close> (which is outside the embedded sources) yields grants of kind normal
  for this request of kind normal.
\<close>

theorem allocatePool_reserved_fallback:
  assumes "FreeReservedCPUs ext (supplies p) (root_pool p) = {}"
    and "reqCPUType (newRequest ext container) = cpuReserved"
    and "\<forall>pool offer g u s'.
           Allocate ext (supplies p) pool ((newRequest ext container)\<lparr>reqCPUType := cpuNormal\<rparr>) offer
             = Some (g, u, s') \<longrightarrow> CPUType g = cpuNormal"
  shows "effectiveRequest ext container p = (newRequest ext container)\<lparr>reqCPUType := cpuNormal\<rparr>
    \<and> allocatePool ext container poolHint p
        = (let request = (newRequest ext container)\<lparr>reqCPUType := cpuNormal\<rparr>
           in case calculatePoolAffinities ext p (reqContainer request) of
                None \<Rightarrow> Inl FailedAffinity
              | Some affinity \<Rightarrow>
                  (case sortPoolsByScore ext request affinity p of
                     Inl err \<Rightarrow> Inl err
                   | Inr (scores, sortedPools) \<Rightarrow>
                       (case sortedPools of
                          [] \<Rightarrow> Inl NoSuitablePool
                        | best # others \<Rightarrow>
                            (let hinted = (if poolHint \<noteq> []
                                           then List.find (\<lambda>n. Name (self n) = poolHint) sortedPools
                                           else None);
                                 pool = (case hinted of None \<Rightarrow> best | Some n \<Rightarrow> n)
                             in case scores (NodeID (self pool)) of
                                  None \<Rightarrow> Inl NilScore
                                | Some score \<Rightarrow>
                                    (case ScoreOffer score of
                                       None \<Rightarrow> Inl FailedOffer
                                     | Some offer \<Rightarrow>
                                         allocateFrom ext container pool request offer p)))))
    \<and> allocatePool ext container poolHint p
        = allocatePool (ext\<lparr>newRequest := \<lambda>c. (newRequest ext c)\<lparr>reqCPUType := cpuNormal\<rparr>\<rparr>)
            container poolHint p
    \<and> (\<forall>g p'. allocatePool ext container poolHint p = Inr (g, p') \<longrightarrow> CPUType g = cpuNormal)"
proof (intro conjI allI impI)
  show eff: "effectiveRequest ext container p
      = (newRequest ext container)\<lparr>reqCPUType := cpuNormal\<rparr>"
    using assms(1,2) by (simp add: effectiveRequest_def)
  show "allocatePool ext container poolHint p
        = (let request = (newRequest ext container)\<lparr>reqCPUType := cpuNormal\<rparr>
           in case calculatePoolAffinities ext p (reqContainer request) of
                None \<Rightarrow> Inl FailedAffinity
              | Some affinity \<Rightarrow>
                  (case sortPoolsByScore ext request affinity p of
                     Inl err \<Rightarrow> Inl err
                   | Inr (scores, sortedPools) \<Rightarrow>
                       (case sortedPools of
                          [] \<Rightarrow> Inl NoSuitablePool
                        | best # others \<Rightarrow>
                            (let hinted = (if poolHint \<noteq> []
                                           then List.find (\<lambda>n. Name (self n) = poolHint) sortedPools
                                           else None);
                                 pool = (case hinted of None \<Rightarrow> best | Some n \<Rightarrow> n)
                             in case scores (NodeID (self pool)) of
                                  None \<Rightarrow> Inl NilScore
                                | Some score \<Rightarrow>
                                    (case ScoreOffer score of
                                       None \<Rightarrow> Inl FailedOffer
                                     | Some offer \<Rightarrow>
                                         allocateFrom ext container pool request offer p)))))"
    unfolding allocatePool_def eff by (simp add: Let_def)
  have "effectiveRequest (ext\<lparr>newRequest := \<lambda>c. (newRequest ext c)\<lparr>reqCPUType := cpuNormal\<rparr>\<rparr>) container p
      = effectiveRequest ext container p"
    using assms(1,2) by (simp add: effectiveRequest_def)
  then show "allocatePool ext container poolHint p
        = allocatePool (ext\<lparr>newRequest := \<lambda>c. (newRequest ext c)\<lparr>reqCPUType := cpuNormal\<rparr>\<rparr>)
            container poolHint p"
    by (simp add: allocatePool_def allocateFrom_newRequest sortPoolsByScore_newRequest
        cong: option.case_cong sum.case_cong prod.case_cong list.case_cong if_cong)
next
  fix g p'
  assume res: "allocatePool ext container poolHint p = Inr (g, p')"
  have eff: "effectiveRequest ext container p
      = (newRequest ext container)\<lparr>reqCPUType := cpuNormal\<rparr>"
    using assms(1,2) by (simp add: effectiveRequest_def)
  from res obtain pool offer where
    "allocateFrom ext container pool ((newRequest ext container)\<lparr>reqCPUType := cpuNormal\<rparr>) offer p
       = Inr (g, p')"
    by (auto simp: allocatePool_def Let_def eff split: option.splits sum.splits list.splits)
  then obtain u s' where
    "Allocate ext (supplies p) pool ((newRequest ext container)\<lparr>reqCPUType := cpuNormal\<rparr>) offer
       = Some (g, u, s')"
    by (auto simp: allocateFrom_def Let_def split: option.splits)
  with assms(3) show "CPUType g = cpuNormal" by blast
qed

theorem allocatePool_reserved_fallback_witness:
  "FreeReservedCPUs exampleExt (supplies examplePolicy) (root_pool examplePolicy) = {}
   \<and> reqCPUType (newRequest exampleExt ''c3'') = cpuReserved
   \<and> effectiveRequest exampleExt ''c3'' examplePolicy
       = (newRequest exampleExt ''c3'')\<lparr>reqCPUType := cpuNormal\<rparr>
   \<and> (\<exists>g p'. allocatePool exampleExt ''c3'' [] examplePolicy = Inr (g, p')
          \<and> CPUType g = cpuNormal)"
proof -
  have a: "FreeReservedCPUs exampleExt (supplies examplePolicy) (root_pool examplePolicy) = {}"
    by (simp add: exampleExt_def)
  have b: "reqCPUType (newRequest exampleExt ''c3'') = cpuReserved"
    by (simp add: exampleExt_def)
  have c: "\<forall>pool offer g u s'.
           Allocate exampleExt (supplies examplePolicy) pool
             ((newRequest exampleExt ''c3'')\<lparr>reqCPUType := cpuNormal\<rparr>) offer
             = Some (g, u, s') \<longrightarrow> CPUType g = cpuNormal"
    by (simp add: exampleExt_def exampleGrantFor_def)
  have d: "\<exists>g p'. allocatePool exampleExt ''c3'' [] examplePolicy = Inr (g, p')"
    by (simp add: allocatePool_def effectiveRequest_def sortPoolsByScore_def allocateFrom_def
        exampleExt_def examplePolicy_def exampleScore_def exampleNode_def examplePool_def
        DepthFirst_def Let_def)
  from allocatePool_reserved_fallback [OF a b c, of "[]"] a b d show ?thesis by blast
qed

section \<open>Topology builder: verified properties\<close>

text \<open>
  Claim C2.  The claim says that every snapshot with an asymmetric NUMA distance matrix
  makes \<open>checkHWTopology\<close> return an error, also when NUMA nodes are shared between
  the dies of a package.  Evaluated on such a snapshot, the function returns
  \<open>(true, nil)\<close>: the die check returns before the distance matrix is looked at.
\<close>

theorem checkHWTopology_shared_dies_asymmetric:
  "NodeDistance sharedDieSystem 0 1 \<noteq> NodeDistance sharedDieSystem 1 0
   \<and> checkHWTopology sharedDieSystem = Inr True"
  by (simp add: checkHWTopology_def socketsShareNodes_def diesShareNodes_def
      sharedDieSystem_def)

text \<open>Without NUMA nodes shared between dies, an asymmetric pair of node ids does
  lead to an error.\<close>

lemma firstReturn_None: "firstReturn body xs = None \<longleftrightarrow> (\<forall>x\<in>set xs. body x = None)"
  by (induction xs) (auto split: option.splits)

lemma distancesAsymmetric_Some:
  assumes "a \<in> set (NodeIDs sys)" "b \<in> set (NodeIDs sys)"
    and "NodeDistance sys a b \<noteq> NodeDistance sys b a"
  shows "\<exists>e. distancesAsymmetric sys = Some e"
proof (cases "distancesAsymmetric sys")
  case None
  with assms(1,2) have "NodeDistance sys a b = NodeDistance sys b a"
    unfolding distancesAsymmetric_def firstReturn_None
    by (auto simp: Let_def split: if_splits)
  with assms(3) show ?thesis by simp
qed simp

lemma checkHWTopology_asymmetric_error:
  assumes "diesShareNodes sys = None"
    and "a \<in> set (NodeIDs sys)" "b \<in> set (NodeIDs sys)"
    and "NodeDistance sys a b \<noteq> NodeDistance sys b a"
  shows "\<exists>e. checkHWTopology sys = Inl e"
  using distancesAsymmetric_Some [OF assms(2,3,4)] assms(1)
  by (auto simp: checkHWTopology_def split: option.splits)

lemma pickTaker_result:
  "pickTaker sur a ds t0 = (t, i) \<Longrightarrow> t = fst t0 \<or> (\<exists>d\<in>set ds. t = sur d)"
proof (induction ds arbitrary: t0)
  case Nil
  then show ?case by simp
next
  case (Cons d ds)
  obtain tk ti where t0: "t0 = (tk, ti)" by (cases t0)
  from Cons.prems t0 Cons.IH show ?case
    by (fastforce split: if_splits)
qed

lemma collectClosest_subset:
  "set (collectClosest distance x ds acc) \<subseteq> set ds \<union> set acc"
proof (induction ds arbitrary: acc)
  case Nil
  then show ?case by simp
next
  case (Cons d ds)
  show ?case
    using Cons.IH [of "(case acc of [] \<Rightarrow> [d] | m0 # _ \<Rightarrow>
            (let minDist = distance x m0; newDist = distance x d
             in if newDist = minDist then acc @ [d]
                else if newDist < minDist then [d] else acc))"]
    by (auto simp: Let_def split: list.splits if_splits)
qed

lemma closestDRAM_subset: "set (closestDRAM distance dram x) \<subseteq> set dram"
  using collectClosest_subset [of distance x dram "[]"] by (simp add: closestDRAM_def)

lemma keys_update: "fst ` set (AList.update k v al) = insert k (fst ` set al)"
  using dom_update [of k v al] by (simp add: dom_map_of_conv_image_fst)

lemma assignXMEM_keys:
  assumes "assignXMEM sur cl a = Inr a'"
    and "\<forall>(x, ms)\<in>set cl. set ms \<subseteq> D"
  shows "fst ` set a' \<subseteq> fst ` set a \<union> sur ` D \<and> (distinct (map fst a) \<longrightarrow> distinct (map fst a'))"
  using assms
proof (induction cl arbitrary: a)
  case Nil
  then show ?case by simp
next
  case (Cons c cl)
  obtain x ms where c: "c = (x, ms)" by (cases c)
  obtain t i where pt: "pickTaker sur a ms (None, 0) = (t, i)" by (cases "pickTaker sur a ms (None, 0)")
  with Cons.prems(1) c obtain tk where tk: "t = Some tk" by (cases t) auto
  let ?a1 = "AList.update (Some tk) (assignedTo a (Some tk) @ [x]) a"
  from Cons.prems(1) c pt tk have rest: "assignXMEM sur cl ?a1 = Inr a'" by simp
  from pickTaker_result [OF pt] tk obtain d where d: "d \<in> set ms" "sur d = Some tk" by auto
  from Cons.prems(2) c d have "Some tk \<in> sur ` D" by force
  moreover from Cons.prems(2) have "\<forall>(x, ms)\<in>set cl. set ms \<subseteq> D" by simp
  from Cons.IH [OF rest this]
  have "fst ` set a' \<subseteq> fst ` set ?a1 \<union> sur ` D"
    and "distinct (map fst ?a1) \<longrightarrow> distinct (map fst a')" by auto
  ultimately show ?case
    by (auto simp: distinct_update keys_update)
qed

lemma assignDRAM_keys:
  "assignDRAM sur dram a = Inr a' \<Longrightarrow> fst ` set a' = fst ` set a \<union> sur ` set dram"
proof (induction dram arbitrary: a)
  case Nil
  then show ?case by simp
next
  case (Cons d dram)
  from Cons.prems obtain t where t: "sur d = Some t"
    and rest: "assignDRAM sur dram (AList.update (Some t) (d # assignedTo a (Some t)) a) = Inr a'"
    by (auto split: option.splits)
  from Cons.IH [OF rest] t show ?case by (auto simp: keys_update)
qed

lemma assignDRAM_distinct:
  "assignDRAM sur dram a = Inr a' \<Longrightarrow> distinct (map fst a) \<Longrightarrow> distinct (map fst a')"
proof (induction dram arbitrary: a)
  case Nil
  then show ?case by simp
next
  case (Cons d dram)
  from Cons.prems(1) obtain t where
    rest: "assignDRAM sur dram (AList.update (Some t) (d # assignedTo a (Some t)) a) = Inr a'"
    by (auto split: option.splits)
  from Cons.IH [OF rest] Cons.prems(2) show ?case by (simp add: distinct_update)
qed

lemma assignNUMANodes_keys:
  assumes "assignNUMANodes distance sur xmem dram = Inr a"
  shows "fst ` set a = sur ` set dram" and "distinct (map fst a)"
proof -
  let ?cl = "map (\<lambda>xmemID. (xmemID, closestDRAM distance dram xmemID)) xmem"
  from assms obtain a0 where a0: "assignXMEM sur ?cl [] = Inr a0"
    and a: "assignDRAM sur dram a0 = Inr a"
    by (auto simp: assignNUMANodes_def Let_def split: sum.splits)
  have "\<forall>(x, ms)\<in>set ?cl. set ms \<subseteq> set dram"
    using closestDRAM_subset by auto
  from assignXMEM_keys [OF a0 this]
  have "fst ` set a0 \<subseteq> sur ` set dram" "distinct (map fst a0)" by auto
  then show "fst ` set a = sur ` set dram" and "distinct (map fst a)"
    using assignDRAM_keys [OF a] assignDRAM_distinct [OF a] by auto
qed

lemma assignedTo_update:
  "assignedTo (AList.update k v a) n = (if n = k then v else assignedTo a n)"
  by (simp add: assignedTo_def update_conv')

lemma mergeAssigned_map_of:
  "distinct (map fst hbms) \<Longrightarrow>
   map_of (mergeAssigned a hbms) n =
     (case map_of hbms n of
        None \<Rightarrow> map_of a n
      | Some ids \<Rightarrow> Some (SortedMembers (assignedTo a n @ ids)))"
  unfolding mergeAssigned_def
proof (induction hbms arbitrary: a)
  case Nil
  then show ?case by simp
next
  case (Cons h hbms)
  obtain k v where h: "h = (k, v)" by (cases h)
  from Cons.prems h have nk: "map_of hbms k = None" and d: "distinct (map fst hbms)"
    by (auto simp: map_of_eq_None_iff)
  show ?case
    using Cons.IH [OF d, of "AList.update k (SortedMembers (assignedTo a k @ v)) a"] nk h
    by (auto simp: update_conv' assignedTo_update split: option.splits)
qed

lemma SortedMembers_props:
  "sorted (SortedMembers ids)" "distinct (SortedMembers ids)" "set (SortedMembers ids) = set ids"
  by (simp_all add: SortedMembers_def)

text \<open>
  Claim C5, amended.  In the final assignment that \<open>buildPoolsByTopology\<close> computes,
  after the HBM map is merged into the PMEM map, the list of every pool is in strictly
  ascending order of NUMA id (sorted and without duplicates) and consists of the ids the
  pool has in the PMEM map together with those it has in the HBM map; so the order is
  deterministic, and a DRAM id precedes a PMEM or HBM id exactly when it is the smaller
  number.
\<close>

theorem assignPools_sorted_union:
  assumes "assignPools distance sur pmem hbm dram = Inr final"
    and "map_of final n = Some ids"
  shows "sorted ids \<and> distinct ids \<and>
     (\<exists>assigned hbms.
        assignNUMANodes distance sur pmem dram = Inr assigned \<and>
        assignNUMANodes distance sur hbm dram = Inr hbms \<and>
        set ids = set (assignedTo assigned n) \<union> set (assignedTo hbms n))"
proof -
  from assms(1) obtain assigned hbms where
    a: "assignNUMANodes distance sur pmem dram = Inr assigned" and
    h: "assignNUMANodes distance sur hbm dram = Inr hbms" and
    f: "final = mergeAssigned assigned hbms"
    by (auto simp: assignPools_def split: sum.splits)
  note ka = assignNUMANodes_keys [OF a] and kh = assignNUMANodes_keys [OF h]
  have m: "map_of final n =
     (case map_of hbms n of
        None \<Rightarrow> map_of assigned n
      | Some ids \<Rightarrow> Some (SortedMembers (assignedTo assigned n @ ids)))"
    unfolding f by (rule mergeAssigned_map_of [OF kh(2)])
  have "map_of hbms n \<noteq> None"
  proof
    assume none: "map_of hbms n = None"
    with m assms(2) have "map_of assigned n = Some ids" by simp
    then have "n \<in> fst ` set assigned" by (metis domI dom_map_of_conv_image_fst)
    with ka(1) kh(1) have "n \<in> fst ` set hbms" by simp
    with none show False by (simp add: map_of_eq_None_iff)
  qed
  then obtain hs where hs: "map_of hbms n = Some hs" by auto
  with m assms(2) have ids: "ids = SortedMembers (assignedTo assigned n @ hs)" by simp
  have "assignedTo hbms n = hs" using hs by (simp add: assignedTo_def)
  with ids a h show ?thesis
    by (auto simp: SortedMembers_props)
qed

lemma assignPools_example1:
  "assignPools exampleDistance exampleSurrogates [0] [] [1] = Inr [(Some ''socket #0'', [0, 1])]"
  by code_simp

lemma assignPools_example2:
  "assignPools exampleDistance exampleSurrogates [0] [3] [2, 1]
     = Inr [(Some ''socket #0'', [0, 1]), (Some ''socket #1'', [2, 3])]"
  by code_simp

text \<open>
  Claim C5, as stated, fails: with PMEM node 0 and DRAM node 1 assigned to the same
  pool, the merged list is \<open>[0, 1]\<close>, the PMEM id before the DRAM id.
\<close>

theorem assignPools_dram_first_counterexample:
  "assignPools exampleDistance exampleSurrogates [0] [] [1] = Inr [(Some ''socket #0'', [0, 1])]
   \<and> \<not> dramBeforeOthers [1] [0, 1]"
  by (simp add: assignPools_example1 dramBeforeOthers_def)

theorem assignPools_sorted_union_witness:
  "assignPools exampleDistance exampleSurrogates [0] [3] [2, 1]
     = Inr [(Some ''socket #0'', [0, 1]), (Some ''socket #1'', [2, 3])]
   \<and> map_of [(Some ''socket #0'', [0, 1 :: int]), (Some ''socket #1'', [2, 3])] (Some ''socket #1'')
       = Some [2, 3]
   \<and> sorted [2, 3 :: int] \<and> distinct [2, 3 :: int]"
proof -
  have m: "map_of [(Some ''socket #0'', [0, 1 :: int]), (Some ''socket #1'', [2, 3])] (Some ''socket #1'')
       = Some [2, 3]" by simp
  from assignPools_sorted_union [OF assignPools_example2 m] assignPools_example2 m
  show ?thesis by blast
qed

text \<open>The closest DRAM nodes: \<open>collectClosest\<close> computes the set of DRAM nodes at
  minimum distance, whatever the order in which the DRAM map is visited.\<close>

lemma collectClosest_argmin:
  assumes "set acc = {d \<in> S. \<forall>d'\<in>S. distance x d \<le> distance x d'}"
    and "acc = [] \<longrightarrow> S = {}"
  shows "set (collectClosest distance x ds acc)
           = {d \<in> S \<union> set ds. \<forall>d'\<in>S \<union> set ds. distance x d \<le> distance x d'}"
  using assms
proof (induction ds arbitrary: acc S)
  case Nil
  then show ?case by simp
next
  case (Cons d ds)
  let ?acc' = "(case acc of [] \<Rightarrow> [d] | m0 # _ \<Rightarrow>
            (let minDist = distance x m0; newDist = distance x d
             in if newDist = minDist then acc @ [d]
                else if newDist < minDist then [d] else acc))"
  have inv: "set ?acc' = {e \<in> insert d S. \<forall>d'\<in>insert d S. distance x e \<le> distance x d'}"
  proof (cases acc)
    case Nil
    with Cons.prems show ?thesis by auto
  next
    case (Cons m0 rest)
    with Cons.prems(1) have m0: "m0 \<in> S" "\<forall>d'\<in>S. distance x m0 \<le> distance x d'" by auto
    from Cons.prems(1) have eq: "\<forall>e\<in>set acc. distance x e = distance x m0"
      using m0 by (auto intro: antisym)
    consider "distance x d = distance x m0" | "distance x d < distance x m0"
      | "distance x m0 < distance x d" by linarith
    then show ?thesis
    proof cases
      case 1
      have "set ?acc' = insert d (set acc)" using 1 Cons by (auto simp add: Let_def)
      also have "\<dots> = {e \<in> insert d S. \<forall>d'\<in>insert d S. distance x e \<le> distance x d'}"
        using 1 m0 Cons.prems(1) by auto
      finally show ?thesis .
    next
      case 2
      have "set ?acc' = {d}" using 2 Cons by (auto simp add: Let_def)
      also have "\<dots> = {e \<in> insert d S. \<forall>d'\<in>insert d S. distance x e \<le> distance x d'}"
        using 2 m0 by force
      finally show ?thesis .
    next
      case 3
      have "set ?acc' = set acc" using 3 Cons by (auto simp add: Let_def)
      also have "\<dots> = {e \<in> insert d S. \<forall>d'\<in>insert d S. distance x e \<le> distance x d'}"
        using 3 m0 Cons.prems(1) by force
      finally show ?thesis .
    qed
  qed
  have ne: "?acc' = [] \<longrightarrow> insert d S = {}"
    by (auto simp: Let_def split: list.splits)
  have "set (collectClosest distance x (d # ds) acc) = set (collectClosest distance x ds ?acc')"
    by simp
  also have "\<dots> = {e \<in> insert d S \<union> set ds. \<forall>d'\<in>insert d S \<union> set ds. distance x e \<le> distance x d'}"
    by (rule Cons.IH [OF inv ne])
  finally show ?case by simp
qed

lemma closestDRAM_set:
  "set (closestDRAM distance dram x)
     = {d \<in> set dram. \<forall>d'\<in>set dram. distance x d \<le> distance x d'}"
  using collectClosest_argmin [of "[]" "{}" distance x dram] by (simp add: closestDRAM_def)

lemma closestDRAM_sorted: "sorted (closestDRAM distance dram x)"
  by (simp add: closestDRAM_def)

lemma closestDRAM_nonempty:
  assumes "dram \<noteq> []"
  shows "closestDRAM distance dram x \<noteq> []"
proof -
  have "finite (distance x ` set dram)" "distance x ` set dram \<noteq> {}" using assms by auto
  then have "Min (distance x ` set dram) \<in> distance x ` set dram" by (rule Min_in)
  then obtain d where d: "d \<in> set dram" "distance x d = Min (distance x ` set dram)" by auto
  then have "\<forall>d'\<in>set dram. distance x d \<le> distance x d'" by simp
  with d have "d \<in> set (closestDRAM distance dram x)" by (simp add: closestDRAM_set)
  then show ?thesis by auto
qed

text \<open>The taker: the first of the closest DRAM nodes, in ascending order, whose
  surrogate holds the fewest node ids.\<close>

lemma pickTaker_first_least:
  assumes "sorted (t # ds)" and "surrogates t \<noteq> None" and "\<forall>d\<in>set ds. surrogates d \<noteq> None"
  shows "\<exists>tid. pickTaker surrogates a ds (surrogates t, t) = (surrogates tid, tid)
           \<and> tid \<in> set (t # ds)
           \<and> (\<forall>d\<in>set (t # ds).
                 length (assignedTo a (surrogates tid)) \<le> length (assignedTo a (surrogates d))
                 \<and> (length (assignedTo a (surrogates d)) = length (assignedTo a (surrogates tid))
                      \<longrightarrow> tid \<le> d))"
  using assms
proof (induction ds arbitrary: t)
  case Nil
  then show ?case by simp
next
  case (Cons d ds)
  let ?load = "\<lambda>k. length (assignedTo a (surrogates k))"
  show ?case
  proof (cases "?load t > ?load d")
    case True
    from Cons.prems have "sorted (d # ds)" "surrogates d \<noteq> None" "\<forall>e\<in>set ds. surrogates e \<noteq> None"
      by auto
    from Cons.IH [OF this] obtain tid where
      tid: "pickTaker surrogates a ds (surrogates d, d) = (surrogates tid, tid)"
        "tid \<in> set (d # ds)"
        "\<forall>e\<in>set (d # ds). ?load tid \<le> ?load e \<and> (?load e = ?load tid \<longrightarrow> tid \<le> e)"
      by blast
    from tid(3) have "?load tid \<le> ?load d" by simp
    with True have lt: "?load tid < ?load t" by simp
    have step: "pickTaker surrogates a (d # ds) (surrogates t, t)
        = pickTaker surrogates a ds (surrogates d, d)"
      using True Cons.prems(2) by auto
    show ?thesis
      apply (rule exI [of _ tid])
      using tid lt unfolding step by auto
  next
    case False
    from Cons.prems have "sorted (t # ds)" "surrogates t \<noteq> None" "\<forall>e\<in>set ds. surrogates e \<noteq> None"
      by auto
    from Cons.IH [OF this] obtain tid where
      tid: "pickTaker surrogates a ds (surrogates t, t) = (surrogates tid, tid)"
        "tid \<in> set (t # ds)"
        "\<forall>e\<in>set (t # ds). ?load tid \<le> ?load e \<and> (?load e = ?load tid \<longrightarrow> tid \<le> e)"
      by blast
    from tid(3) have t1: "?load tid \<le> ?load t" "?load t = ?load tid \<longrightarrow> tid \<le> t" by simp_all
    from Cons.prems(1) have td: "t \<le> d" by simp
    have step: "pickTaker surrogates a (d # ds) (surrogates t, t)
        = pickTaker surrogates a ds (surrogates t, t)"
      using False Cons.prems(2) by auto
    have dprop: "?load tid \<le> ?load d \<and> (?load d = ?load tid \<longrightarrow> tid \<le> d)"
      using False t1 td by auto
    show ?thesis
      apply (rule exI [of _ tid])
      using tid dprop unfolding step by auto
  qed
qed

lemma pickTaker_closest:
  assumes "sorted ms" and "ms \<noteq> []" and "\<forall>d\<in>set ms. surrogates d \<noteq> None"
  shows "\<exists>tid. pickTaker surrogates a ms (None, 0) = (surrogates tid, tid)
           \<and> tid \<in> set ms
           \<and> (\<forall>d\<in>set ms.
                 length (assignedTo a (surrogates tid)) \<le> length (assignedTo a (surrogates d))
                 \<and> (length (assignedTo a (surrogates d)) = length (assignedTo a (surrogates tid))
                      \<longrightarrow> tid \<le> d))"
proof -
  from assms(2) obtain m rest where ms: "ms = m # rest" by (cases ms) auto
  have "pickTaker surrogates a ms (None, 0) = pickTaker surrogates a rest (surrogates m, m)"
    by (simp add: ms)
  moreover from assms ms have "sorted (m # rest)" "surrogates m \<noteq> None"
    "\<forall>d\<in>set rest. surrogates d \<noteq> None" by auto
  from pickTaker_first_least [OF this]
  obtain tid where "pickTaker surrogates a rest (surrogates m, m) = (surrogates tid, tid)
           \<and> tid \<in> set (m # rest)
           \<and> (\<forall>d\<in>set (m # rest).
                 length (assignedTo a (surrogates tid)) \<le> length (assignedTo a (surrogates d))
                 \<and> (length (assignedTo a (surrogates d)) = length (assignedTo a (surrogates tid))
                      \<longrightarrow> tid \<le> d))" by blast
  ultimately show ?thesis unfolding ms by metis
qed

text \<open>Assigning other nodes does not change how often a node occurs in a list.\<close>

lemma assignXMEM_count_other:
  assumes "assignXMEM surrogates cl a = Inr a'" and "x \<notin> fst ` set cl"
  shows "count_list (assignedTo a' n) x = count_list (assignedTo a n) x"
  using assms
proof (induction cl arbitrary: a)
  case Nil
  then show ?case by simp
next
  case (Cons c cl)
  obtain y ms where c: "c = (y, ms)" by (cases c)
  obtain t i where pt: "pickTaker surrogates a ms (None, 0) = (t, i)"
    by (cases "pickTaker surrogates a ms (None, 0)")
  with Cons.prems(1) c obtain tk where tk: "t = Some tk" by (cases t) auto
  let ?a1 = "AList.update (Some tk) (assignedTo a (Some tk) @ [y]) a"
  from Cons.prems(1) c pt tk have rest: "assignXMEM surrogates cl ?a1 = Inr a'" by simp
  from Cons.prems(2) c have xy: "x \<noteq> y" and xcl: "x \<notin> fst ` set cl" by auto
  from Cons.IH [OF rest xcl] xy show ?case
    by (simp add: assignedTo_update)
qed

lemma assignXMEM_append:
  "assignXMEM surrogates (cl1 @ cl2) a =
     (case assignXMEM surrogates cl1 a of
        Inl err \<Rightarrow> Inl err
      | Inr a1 \<Rightarrow> assignXMEM surrogates cl2 a1)"
proof (induction cl1 arbitrary: a)
  case Nil
  then show ?case by simp
next
  case (Cons c cl1)
  obtain y ms where c: "c = (y, ms)" by (cases c)
  show ?case
    by (simp add: c Cons.IH split: prod.splits option.splits)
qed

lemma assignXMEM_succeeds:
  assumes "\<forall>(y, ms)\<in>set cl. sorted ms \<and> ms \<noteq> [] \<and> (\<forall>d\<in>set ms. surrogates d \<noteq> None)"
  shows "\<exists>a'. assignXMEM surrogates cl a = Inr a'"
  using assms
proof (induction cl arbitrary: a)
  case Nil
  then show ?case by simp
next
  case (Cons c cl)
  obtain y ms where c: "c = (y, ms)" by (cases c)
  from Cons.prems c have "sorted ms" "ms \<noteq> []" "\<forall>d\<in>set ms. surrogates d \<noteq> None" by auto
  from pickTaker_closest [OF this, of a] obtain tid where
    pt: "pickTaker surrogates a ms (None, 0) = (surrogates tid, tid)" and "tid \<in> set ms" by blast
  with \<open>\<forall>d\<in>set ms. surrogates d \<noteq> None\<close> obtain tk where tk: "surrogates tid = Some tk" by auto
  from Cons.prems have "\<forall>(y, ms)\<in>set cl. sorted ms \<and> ms \<noteq> [] \<and> (\<forall>d\<in>set ms. surrogates d \<noteq> None)"
    by simp
  from Cons.IH [OF this] show ?case by (simp add: c pt tk)
qed

lemma assignDRAM_count_other:
  "assignDRAM surrogates dram a = Inr a' \<Longrightarrow> x \<notin> set dram \<Longrightarrow>
   count_list (assignedTo a' n) x = count_list (assignedTo a n) x"
proof (induction dram arbitrary: a)
  case Nil
  then show ?case by simp
next
  case (Cons d dram)
  from Cons.prems(1) obtain t where
    rest: "assignDRAM surrogates dram (AList.update (Some t) (d # assignedTo a (Some t)) a) = Inr a'"
    by (auto split: option.splits)
  from Cons.prems(2) have "x \<noteq> d" "x \<notin> set dram" by auto
  with Cons.IH [OF rest] show ?case by (simp add: assignedTo_update)
qed

lemma assignDRAM_succeeds:
  "\<forall>d\<in>set dram. surrogates d \<noteq> None \<Longrightarrow> \<exists>a'. assignDRAM surrogates dram a = Inr a'"
  by (induction dram arbitrary: a) auto

lemma closest_good:
  assumes "dram \<noteq> []" and "\<forall>d\<in>set dram. surrogates d \<noteq> None"
  shows "\<forall>(y, ms)\<in>set (map (\<lambda>xmemID. (xmemID, closestDRAM distance dram xmemID)) ys).
           sorted ms \<and> ms \<noteq> [] \<and> (\<forall>d\<in>set ms. surrogates d \<noteq> None)"
  using assms by (auto simp: closestDRAM_sorted closestDRAM_nonempty closestDRAM_set)

text \<open>
  Claim C4.  In \<open>assignNUMANodes\<close>, every PMEM or HBM node \<open>x\<close> is assigned to
  exactly one surrogate: the result holds \<open>x\<close> once, in the list of the surrogate of a
  DRAM node \<open>takerID\<close> at minimum distance from \<open>x\<close>; among the DRAM nodes at minimum
  distance, that surrogate holds the fewest node ids at the moment \<open>x\<close> is assigned
  (in \<open>assigned0\<close>, the assignment after the nodes visited before \<open>x\<close>), and
  \<open>takerID\<close> is the smallest DRAM id among those whose surrogates are equally
  loaded.  The function returns a result whenever there is a DRAM node and every DRAM
  node has a surrogate; the keys of the two maps are distinct, and no node is both
  DRAM and PMEM or HBM.
\<close>

theorem assignNUMANodes_taker:
  assumes "distinct xmem" and "set xmem \<inter> set dram = {}" and "dram \<noteq> []"
    and "\<forall>d\<in>set dram. surrogates d \<noteq> None"
    and "xmem = before @ x # after"
  shows "\<exists>assigned0 result takerID.
      assignXMEM surrogates
        (map (\<lambda>xmemID. (xmemID, closestDRAM distance dram xmemID)) before) [] = Inr assigned0
    \<and> assignNUMANodes distance surrogates xmem dram = Inr result
    \<and> takerID \<in> set dram \<and> (\<forall>d\<in>set dram. distance x takerID \<le> distance x d)
    \<and> (\<forall>d\<in>set dram. (\<forall>d'\<in>set dram. distance x d \<le> distance x d') \<longrightarrow>
          length (assignedTo assigned0 (surrogates takerID))
            \<le> length (assignedTo assigned0 (surrogates d))
          \<and> (length (assignedTo assigned0 (surrogates d))
                = length (assignedTo assigned0 (surrogates takerID)) \<longrightarrow> takerID \<le> d))
    \<and> (\<forall>n. count_list (assignedTo result n) x = (if n = surrogates takerID then 1 else 0))"
proof -
  let ?cl = "\<lambda>ys. map (\<lambda>xmemID. (xmemID, closestDRAM distance dram xmemID)) ys"
  note good = closest_good [OF assms(3,4), of distance]
  from assignXMEM_succeeds [OF good, of before "[]"]
  obtain a0 where a0: "assignXMEM surrogates (?cl before) [] = Inr a0" by blast
  let ?ms = "closestDRAM distance dram x"
  have ms: "sorted ?ms" "?ms \<noteq> []" "\<forall>d\<in>set ?ms. surrogates d \<noteq> None"
    using assms(3,4) by (auto simp: closestDRAM_sorted closestDRAM_nonempty closestDRAM_set)
  from pickTaker_closest [OF ms, of a0] obtain tid where
    pt: "pickTaker surrogates a0 ?ms (None, 0) = (surrogates tid, tid)" and
    tin: "tid \<in> set ?ms" and
    least: "\<forall>d\<in>set ?ms.
              length (assignedTo a0 (surrogates tid)) \<le> length (assignedTo a0 (surrogates d))
              \<and> (length (assignedTo a0 (surrogates d)) = length (assignedTo a0 (surrogates tid))
                   \<longrightarrow> tid \<le> d)"
    by blast
  from tin ms(3) obtain tk where tk: "surrogates tid = Some tk" by auto
  let ?a1 = "AList.update (Some tk) (assignedTo a0 (Some tk) @ [x]) a0"
  from assignXMEM_succeeds [OF good, of after ?a1]
  obtain a2 where a2: "assignXMEM surrogates (?cl after) ?a1 = Inr a2" by blast
  have all: "assignXMEM surrogates (?cl xmem) [] = Inr a2"
    unfolding assms(5) by (simp add: assignXMEM_append a0 pt tk a2)
  from assignDRAM_succeeds [OF assms(4), of a2]
  obtain a3 where a3: "assignDRAM surrogates dram a2 = Inr a3" by blast
  from all have res: "assignNUMANodes distance surrogates xmem dram = Inr a3"
    by (simp add: assignNUMANodes_def a3)
  from assms(1,5) have xb: "x \<notin> fst ` set (?cl before)" and xa: "x \<notin> fst ` set (?cl after)"
    by (auto simp: image_iff)
  from assms(2,5) have xd: "x \<notin> set dram" by auto
  have c0: "count_list (assignedTo a0 n) x = 0" for n
    using assignXMEM_count_other [OF a0 xb, of n] by (simp add: assignedTo_def)
  have c1: "count_list (assignedTo ?a1 n) x = (if n = Some tk then 1 else 0)" for n
    by (simp add: assignedTo_update c0)
  have c2: "count_list (assignedTo a2 n) x = (if n = Some tk then 1 else 0)" for n
    using assignXMEM_count_other [OF a2 xa, of n] c1 by simp
  have c3: "count_list (assignedTo a3 n) x = (if n = surrogates tid then 1 else 0)" for n
    using assignDRAM_count_other [OF a3 xd, of n] c2 tk by simp
  from tin have t1: "tid \<in> set dram" "\<forall>d\<in>set dram. distance x tid \<le> distance x d"
    by (simp_all add: closestDRAM_set)
  have t2: "\<forall>d\<in>set dram. (\<forall>d'\<in>set dram. distance x d \<le> distance x d') \<longrightarrow>
          length (assignedTo a0 (surrogates tid)) \<le> length (assignedTo a0 (surrogates d))
          \<and> (length (assignedTo a0 (surrogates d)) = length (assignedTo a0 (surrogates tid))
                \<longrightarrow> tid \<le> d)"
    using least by (simp add: closestDRAM_set)
  show ?thesis
    apply (rule exI [of _ a0], rule exI [of _ a3], rule exI [of _ tid])
    using a0 res t1 t2 c3 by blast
qed

lemma assignNUMANodes_example:
  "assignXMEM exampleSurrogates
     (map (\<lambda>xmemID. (xmemID, closestDRAM (\<lambda>a b. 20) [2, 1] xmemID)) [4]) []
     = Inr [(Some ''socket #0'', [4])]"
  "assignNUMANodes (\<lambda>a b. 20) exampleSurrogates [4, 5, 6] [2, 1]
     = Inr [(Some ''socket #0'', [1, 4, 6]), (Some ''socket #1'', [2, 5])]"
  by code_simp+

theorem assignNUMANodes_taker_witness:
  "distinct [4, 5, 6 :: ID] \<and> set [4, 5, 6 :: ID] \<inter> set [2, 1] = {} \<and> [2, 1 :: ID] \<noteq> []
   \<and> assignNUMANodes (\<lambda>a b. 20) exampleSurrogates [4, 5, 6] [2, 1]
       = Inr [(Some ''socket #0'', [1, 4, 6]), (Some ''socket #1'', [2, 5])]
   \<and> (\<exists>takerID. takerID \<in> set [2, 1 :: ID]
         \<and> length (assignedTo [(Some ''socket #0'', [4])] (exampleSurrogates takerID))
             \<le> length (assignedTo [(Some ''socket #0'', [4])] (exampleSurrogates 1))
         \<and> count_list (assignedTo [(Some ''socket #0'', [1, 4, 6]), (Some ''socket #1'', [2, 5])]
              (exampleSurrogates takerID)) 5 = 1)"
proof -
  have h1: "distinct [4, 5, 6 :: ID]" by simp
  have h2: "set [4, 5, 6 :: ID] \<inter> set [2, 1] = {}" by simp
  have h3: "[2, 1 :: ID] \<noteq> []" by simp
  have h4: "\<forall>d\<in>set [2, 1 :: ID]. exampleSurrogates d \<noteq> None"
    by (simp add: exampleSurrogates_def)
  have h5: "[4, 5, 6 :: ID] = [4] @ 5 # [6]" by simp
  from assignNUMANodes_taker [OF h1 h2 h3 h4 h5, of "\<lambda>a b. 20"]
  obtain takerID where "takerID \<in> set [2, 1 :: ID]"
    "length (assignedTo [(Some ''socket #0'', [4])] (exampleSurrogates takerID))
             \<le> length (assignedTo [(Some ''socket #0'', [4])] (exampleSurrogates 1))"
    "count_list (assignedTo [(Some ''socket #0'', [1, 4, 6]), (Some ''socket #1'', [2, 5])]
              (exampleSurrogates takerID)) 5 = 1"
    unfolding assignNUMANodes_example by force
  with h1 h2 h3 assignNUMANodes_example(2) show ?thesis by blast
qed

section \<open>Comparator: verified properties\<close>

text \<open>
  Claim C1.  The claim says that comparing (A, B) and (B, A) gives opposite results.
  Evaluated for a request of two isolated CPUs on a pool A that can serve them from
  isolated CPUs but has no sharable capacity, and a pool B that lacks isolated CPUs but
  has sharable capacity, \<open>compareScores\<close> puts A before B and B before A: the first
  case of the insufficiency switch holds in both orders.
\<close>

theorem compareScores_not_antisymmetric:
  "compareScores exampleExt isolatedRequest [nodeA, nodeB] scoresAB Map.empty 0 1 = Inr True
   \<and> compareScores exampleExt isolatedRequest [nodeA, nodeB] scoresAB Map.empty 1 0 = Inr True"
  by (simp add: compareScores_def compareNodes_def insufficientCapacity_def orElse_def
      nodeA_def nodeB_def leafA_def leafB_def scoresAB_def scoreA_def scoreB_def
      isolatedRequest_def Let_def)

text \<open>The hint step is entered only when the first score has hint scores, so a
  pool that wins on hints in one order can lose on depth in the other.\<close>

lemma compareScores_one_sided_hints:
  "compareScores exampleExt sharedRequest [hintedNodeA, nodeC] scoresHinted Map.empty 0 1 = Inr True
   \<and> compareScores exampleExt sharedRequest [hintedNodeA, nodeC] scoresHinted Map.empty 1 0 = Inr True"
  by (simp add: compareScores_def compareNodes_def insufficientCapacity_def orElse_def
      higherAffinity_def affinityScore_def affinityOf_def betterOffer_def matchingMemoryType_def
      betterHints_def combineHintScores_def preferredPrio_def lowerNode_def mathPow_def
      hintedNodeA_def nodeC_def leafA_def leafC_def diePool_def dieSocketPool_def
      scoresHinted_def exampleScore_def exampleExt_def sharedRequest_def Let_def)

text \<open>
  Outside these two situations the comparator is asymmetric.  Every step of the ladder
  returns opposite verdicts for the two orders and falls through in one order exactly
  when it does in the other, provided the insufficiency switch is not entered with each
  pool short of a different resource and the two scores both have hint scores or both
  have none.  This is a property of the model, in which affinity and hint scores are
  exact real numbers; it says nothing about \<open>float64\<close> values that are not numbers.
\<close>

lemma orElse_flip:
  assumes "a = None \<longleftrightarrow> a' = None" "a = Some True \<Longrightarrow> a' = Some False"
    and "b = None \<longleftrightarrow> b' = None" "b = Some True \<Longrightarrow> b' = Some False"
  shows "orElse a b = None \<longleftrightarrow> orElse a' b' = None"
    and "orElse a b = Some True \<Longrightarrow> orElse a' b' = Some False"
  using assms by (auto simp: orElse_def split: option.splits)

lemma insufficientCapacity_flip:
  assumes "\<not> (cpuType = cpuNormal
      \<and> ((IsolatedCapacity s2 < 0 \<and> IsolatedCapacity s1 \<ge> 0) \<or> (SharedCapacity s2 \<le> 0 \<and> SharedCapacity s1 > 0))
      \<and> ((IsolatedCapacity s1 < 0 \<and> IsolatedCapacity s2 \<ge> 0) \<or> (SharedCapacity s1 \<le> 0 \<and> SharedCapacity s2 > 0)))"
  shows "insufficientCapacity cpuType s1 s2 = None \<longleftrightarrow> insufficientCapacity cpuType s2 s1 = None"
    and "insufficientCapacity cpuType s1 s2 = Some True \<Longrightarrow> insufficientCapacity cpuType s2 s1 = Some False"
  using assms by (auto simp: insufficientCapacity_def Let_def split: if_splits)

lemma higherAffinity_flip:
  "higherAffinity a1 a2 = None \<longleftrightarrow> higherAffinity a2 a1 = None"
  "higherAffinity a1 a2 = Some True \<Longrightarrow> higherAffinity a2 a1 = Some False"
  by (auto simp: higherAffinity_def split: if_splits)

lemma betterOffer_flip:
  "betterOffer ext r o1 o2 = None \<longleftrightarrow> betterOffer ext r o2 o1 = None"
  "betterOffer ext r o1 o2 = Some True \<Longrightarrow> betterOffer ext r o2 o1 = Some False"
  by (auto simp: betterOffer_def Let_def split: option.splits if_splits)

lemma matchingMemoryType_flip:
  "matchingMemoryType ext r n1 n2 = None \<longleftrightarrow> matchingMemoryType ext r n2 n1 = None"
  "matchingMemoryType ext r n1 n2 = Some True \<Longrightarrow> matchingMemoryType ext r n2 n1 = Some False"
  by (auto simp: matchingMemoryType_def Let_def split: if_splits)

lemma betterHints_flip:
  assumes "HintScores s1 = [] \<longleftrightarrow> HintScores s2 = []"
  shows "betterHints s1 s2 d1 d2 i1 i2 = None \<longleftrightarrow> betterHints s2 s1 d2 d1 i2 i1 = None"
    and "betterHints s1 s2 d1 d2 i1 i2 = Some True \<Longrightarrow> betterHints s2 s1 d2 d1 i2 i1 = Some False"
  using assms
  by (auto simp: betterHints_def Let_def split: prod.splits if_splits)

lemma onlyFulfilling_flip:
  "onlyFulfilling c1 c2 = None \<longleftrightarrow> onlyFulfilling c2 c1 = None"
  "onlyFulfilling c1 c2 = Some True \<Longrightarrow> onlyFulfilling c2 c1 = Some False"
  by (auto simp: onlyFulfilling_def split: if_splits)

lemma preferredPrio_flip:
  "preferredPrio r s1 s2 = None \<longleftrightarrow> preferredPrio r s2 s1 = None"
  "preferredPrio r s1 s2 = Some True \<Longrightarrow> preferredPrio r s2 s1 = Some False"
  by (auto simp: preferredPrio_def onlyFulfilling_flip split: cpuPrio.splits)

lemma lowerNode_flip:
  "lowerNode d1 d2 = None \<longleftrightarrow> lowerNode d2 d1 = None"
  "lowerNode d1 d2 = Some True \<Longrightarrow> lowerNode d2 d1 = Some False"
  by (auto simp: lowerNode_def split: if_splits)

lemma reservedPerContainer_flip:
  "reservedPerContainer s1 s2 = Inr (Some True) \<Longrightarrow> reservedPerContainer s2 s1 = Inr (Some False)"
  "reservedPerContainer s1 s2 = Inr None \<Longrightarrow> reservedPerContainer s2 s1 = Inr None"
  by (auto simp: reservedPerContainer_def Let_def split: if_splits)

lemma normalRemainder_flip:
  "normalRemainder r s1 s2 i1 i2 = None \<Longrightarrow> normalRemainder r s2 s1 i2 i1 = None"
  "normalRemainder r s1 s2 i1 i2 = Some True \<Longrightarrow> normalRemainder r s2 s1 i2 i1 = Some False"
  by (auto simp: normalRemainder_def onlyFulfilling_def Let_def split: if_splits option.splits)

lemma ladder_flip:
  fixes i1 i2 :: int
  assumes "L12 = None \<longleftrightarrow> L21 = None" and "L12 = Some True \<Longrightarrow> L21 = Some False"
    and "R12 = Inr (Some True) \<Longrightarrow> R21 = Inr (Some False)" and "R12 = Inr None \<Longrightarrow> R21 = Inr None"
    and "N12 = None \<Longrightarrow> N21 = None" and "N12 = Some True \<Longrightarrow> N21 = Some False"
    and "(case L12 of
         Some b \<Rightarrow> Inr b
       | None \<Rightarrow>
           if k = cpuReserved then
             (case R12 of
                Inl err \<Rightarrow> Inl err | Inr (Some b) \<Rightarrow> Inr b | Inr None \<Rightarrow> Inr (i1 < i2))
           else if k = cpuNormal then
             (case N12 of
                Some b \<Rightarrow> Inr b | None \<Rightarrow> Inr (i1 < i2))
           else Inr (i1 < i2)) = (Inr True :: policyError + bool)"
  shows "(case L21 of
         Some b \<Rightarrow> Inr b
       | None \<Rightarrow>
           if k = cpuReserved then
             (case R21 of
                Inl err \<Rightarrow> Inl err | Inr (Some b) \<Rightarrow> Inr b | Inr None \<Rightarrow> Inr (i2 < i1))
           else if k = cpuNormal then
             (case N21 of
                Some b \<Rightarrow> Inr b | None \<Rightarrow> Inr (i2 < i1))
           else Inr (i2 < i1)) = (Inr False :: policyError + bool)"
proof (cases L12)
  case (Some b)
  with assms(7) have "L12 = Some True" by simp
  from assms(2) [OF this] show ?thesis by simp
next
  case None
  with assms(1) have n: "L21 = None" by simp
  consider (res) "k = cpuReserved" | (nor) "k = cpuNormal"
    | (oth) "k \<noteq> cpuReserved" "k \<noteq> cpuNormal" by blast
  then show ?thesis
  proof cases
    case res
    with assms(7) None have "R12 = Inr (Some True) \<or> (R12 = Inr None \<and> i1 < i2)"
      by (auto split: sum.splits option.splits)
    with assms(3,4) have "R21 = Inr (Some False) \<or> (R21 = Inr None \<and> \<not> i2 < i1)" by auto
    then show ?thesis using res n by auto
  next
    case nor
    with assms(7) None have "N12 = Some True \<or> (N12 = None \<and> i1 < i2)"
      by (auto split: option.splits)
    with assms(5,6) have "N21 = Some False \<or> (N21 = None \<and> \<not> i2 < i1)" by auto
    then show ?thesis using nor n by auto
  next
    case oth
    with assms(7) None have "i1 < i2" by simp
    then show ?thesis using oth n by simp
  qed
qed

text \<open>If A is put before B, then B is not put before A.\<close>

lemma compareNodes_asymmetric:
  assumes "scores (NodeID (self node1)) = Some s1" and "scores (NodeID (self node2)) = Some s2"
    and "\<not> (reqCPUType request = cpuNormal
      \<and> ((IsolatedCapacity s2 < 0 \<and> IsolatedCapacity s1 \<ge> 0) \<or> (SharedCapacity s2 \<le> 0 \<and> SharedCapacity s1 > 0))
      \<and> ((IsolatedCapacity s1 < 0 \<and> IsolatedCapacity s2 \<ge> 0) \<or> (SharedCapacity s1 \<le> 0 \<and> SharedCapacity s2 > 0)))"
    and "HintScores s1 = [] \<longleftrightarrow> HintScores s2 = []"
    and "compareNodes ext request scores affinity node1 node2 = Inr True"
  shows "compareNodes ext request scores affinity node2 node1 = Inr False"
proof -
  let ?d1 = "RootDistance (self node1)" and ?d2 = "RootDistance (self node2)"
  let ?i1 = "NodeID (self node1)" and ?i2 = "NodeID (self node2)"
  let ?L = "\<lambda>s1 s2 n1 n2 d1 d2 i1 i2.
     orElse (insufficientCapacity (reqCPUType request) s1 s2)
       (orElse (higherAffinity (affinityScore affinity n1) (affinityScore affinity n2))
       (orElse (betterOffer ext request (ScoreOffer s1) (ScoreOffer s2))
       (orElse (matchingMemoryType ext request (self n1) (self n2))
       (orElse (betterHints s1 s2 d1 d2 i1 i2)
       (orElse (preferredPrio request s1 s2) (lowerNode d1 d2))))))"
  note f6 = orElse_flip [OF preferredPrio_flip [of request s1 s2] lowerNode_flip [of ?d1 ?d2]]
  note f5 = orElse_flip [OF betterHints_flip [OF assms(4), of ?d1 ?d2 ?i1 ?i2] f6]
  note f4 = orElse_flip [OF matchingMemoryType_flip [of ext request "self node1" "self node2"] f5]
  note f3 = orElse_flip [OF betterOffer_flip [of ext request "ScoreOffer s1" "ScoreOffer s2"] f4]
  note f2 = orElse_flip [OF higherAffinity_flip
      [of "affinityScore affinity node1" "affinityScore affinity node2"] f3]
  note f1 = orElse_flip [OF insufficientCapacity_flip [OF assms(3)] f2]
  have c12: "compareNodes ext request scores affinity node1 node2 =
      (case ?L s1 s2 node1 node2 ?d1 ?d2 ?i1 ?i2 of
         Some b \<Rightarrow> Inr b
       | None \<Rightarrow>
           if reqCPUType request = cpuReserved then
             (case reservedPerContainer s1 s2 of
                Inl err \<Rightarrow> Inl err | Inr (Some b) \<Rightarrow> Inr b | Inr None \<Rightarrow> Inr (?i1 < ?i2))
           else if reqCPUType request = cpuNormal then
             (case normalRemainder request s1 s2 ?i1 ?i2 of
                Some b \<Rightarrow> Inr b | None \<Rightarrow> Inr (?i1 < ?i2))
           else Inr (?i1 < ?i2))"
    by (simp add: compareNodes_def assms(1,2) Let_def)
  have c21: "compareNodes ext request scores affinity node2 node1 =
      (case ?L s2 s1 node2 node1 ?d2 ?d1 ?i2 ?i1 of
         Some b \<Rightarrow> Inr b
       | None \<Rightarrow>
           if reqCPUType request = cpuReserved then
             (case reservedPerContainer s2 s1 of
                Inl err \<Rightarrow> Inl err | Inr (Some b) \<Rightarrow> Inr b | Inr None \<Rightarrow> Inr (?i2 < ?i1))
           else if reqCPUType request = cpuNormal then
             (case normalRemainder request s2 s1 ?i2 ?i1 of
                Some b \<Rightarrow> Inr b | None \<Rightarrow> Inr (?i2 < ?i1))
           else Inr (?i2 < ?i1))"
    by (simp add: compareNodes_def assms(1,2) Let_def)
  show ?thesis
    unfolding c21
    by (rule ladder_flip [OF f1 reservedPerContainer_flip normalRemainder_flip
          assms(5) [unfolded c12]])
qed

section \<open>Metrics projection: verified properties\<close>

lemma collectGroups_fold:
  "fold (\<lambda>(group, cCount) groups. if cCount > 0 then groups @ [group] else groups) gc acc
     = acc @ map fst (filter (\<lambda>(g, c). c > (0::int)) gc)"
  by (induction gc arbitrary: acc) (auto)

lemma collectGroups_eq: "collectGroups gc = map fst (filter (\<lambda>(g, c). c > 0) gc)"
  by (simp add: collectGroups_def collectGroups_fold)

lemma wrap_add:
  fixes a b h m :: int
  shows "((a + h) mod m - h + b + h) mod m - h = (a + b + h) mod m - h"
proof -
  have "(a + h) mod m - h + b + h = (a + h) mod m + b" by simp
  moreover have "((a + h) mod m + b) mod m = (a + h + b) mod m" by (rule mod_add_left_eq)
  moreover have "a + h + b = a + b + h" by simp
  ultimately show ?thesis by simp
qed

lemma wrap64_add: "wrap64 (wrap64 a + b) = wrap64 (a + b)"
  unfolding wrap64_def by (rule wrap_add)

lemma wrap64_zero: "wrap64 0 = 0"
  by (simp add: wrap64_def)

lemma collectContainers_inner:
  "fold (\<lambda>containerID (cNames, req).
           case LookupContainer mx containerID of
             Some prettyName \<Rightarrow>
               (cNames @ [prettyName],
                wrap64 (req + containerRequestedMilliCpus mx containerID))
           | None \<Rightarrow> (cNames, req)) cs (ns, wrap64 r)
     = (ns @ List.map_filter (LookupContainer mx) cs,
        wrap64 (r + sum_list (map (containerRequestedMilliCpus mx)
              (filter (\<lambda>c. LookupContainer mx c \<noteq> None) cs))))"
proof (induction cs arbitrary: ns r)
  case Nil
  then show ?case by simp
next
  case (Cons c cs)
  show ?case
  proof (cases "LookupContainer mx c")
    case None
    then show ?thesis using Cons.IH [of ns r] by simp
  next
    case (Some n)
    then show ?thesis
      using Cons.IH [of "ns @ [n]" "r + containerRequestedMilliCpus mx c"]
      by (simp add: wrap64_add add.assoc)
  qed
qed

lemma collectContainers_outer:
  "fold (\<lambda>(podID, containerIDs) st.
             fold (\<lambda>containerID (cNames, req).
                     case LookupContainer mx containerID of
                       Some prettyName \<Rightarrow>
                         (cNames @ [prettyName],
                          wrap64 (req + containerRequestedMilliCpus mx containerID))
                     | None \<Rightarrow> (cNames, req))
               containerIDs st) pods (ns, wrap64 r)
     = (ns @ List.map_filter (LookupContainer mx) (concat (map snd pods)),
        wrap64 (r + sum_list (map (containerRequestedMilliCpus mx)
              (filter (\<lambda>c. LookupContainer mx c \<noteq> None) (concat (map snd pods))))))"
proof (induction pods arbitrary: ns r)
  case Nil
  then show ?case by simp
next
  case (Cons p pods)
  obtain k cs where p: "p = (k, cs)" by (cases p)
  show ?case
    by (simp add: p collectContainers_inner Cons.IH List.map_filter_def add.assoc)
qed

lemma collectContainers_eq:
  "collectContainers mx pods
     = (foundContainerNames mx pods,
        wrap64 (sum_list (map (containerRequestedMilliCpus mx)
              (filter (\<lambda>c. LookupContainer mx c \<noteq> None) (concat (map snd pods))))))"
  using collectContainers_outer [of mx pods "[]" 0]
  by (simp add: collectContainers_def foundContainerNames_def wrap64_zero)

lemma mset_concat_snd:
  "mset pods1 = mset pods2 \<Longrightarrow> mset (concat (map snd pods1)) = mset (concat (map snd pods2))"
proof -
  assume a: "mset pods1 = mset pods2"
  have "mset (concat (map snd pods)) = sum_mset (image_mset (\<lambda>p. mset (snd p)) (mset pods))" for pods :: "('a \<times> 'b list) list"
    by (induction pods) auto
  with a show ?thesis by simp
qed

lemma sort_cong_mset: "mset xs = mset ys \<Longrightarrow> sort xs = sort ys"
  by (metis properties_for_sort sorted_sort mset_sort)

lemma sum_list_cong_mset:
  "mset xs = mset ys \<Longrightarrow> sum_list (map f xs) = sum_list (map f ys)" for f :: "'a \<Rightarrow> int"
  by (metis mset_map sum_mset_sum_list)

lemma mset_map_filter:
  "mset xs = mset ys \<Longrightarrow> mset (List.map_filter f xs) = mset (List.map_filter f ys)"
  by (metis List.map_filter_def mset_filter mset_map)

lemma balloonMetrics_order:
  assumes "b2 = b1\<lparr>blnGroups := blnGroups b2, blnPodIDs := blnPodIDs b2\<rparr>"
    and "mset (blnGroups b1) = mset (blnGroups b2)"
    and "mset (blnPodIDs b1) = mset (blnPodIDs b2)"
  shows "balloonMetrics mx b1 = balloonMetrics mx b2"
proof -
  have g: "sortStrings (collectGroups (blnGroups b1)) = sortStrings (collectGroups (blnGroups b2))"
    unfolding sortStrings_def collectGroups_eq
    by (rule sort_cong_mset) (metis assms(2) mset_filter mset_map)
  have c: "mset (concat (map snd (blnPodIDs b1))) = mset (concat (map snd (blnPodIDs b2)))"
    by (rule mset_concat_snd [OF assms(3)])
  have n: "sortStrings (fst (collectContainers mx (blnPodIDs b1)))
         = sortStrings (fst (collectContainers mx (blnPodIDs b2)))"
    unfolding sortStrings_def collectContainers_eq foundContainerNames_def fst_conv
    by (rule sort_cong_mset) (rule mset_map_filter [OF c])
  have "sum_list (map (containerRequestedMilliCpus mx)
            (filter (\<lambda>c. LookupContainer mx c \<noteq> None) (concat (map snd (blnPodIDs b1)))))
      = sum_list (map (containerRequestedMilliCpus mx)
            (filter (\<lambda>c. LookupContainer mx c \<noteq> None) (concat (map snd (blnPodIDs b2)))))"
    by (rule sum_list_cong_mset) (metis c mset_filter)
  then have r: "snd (collectContainers mx (blnPodIDs b1)) = snd (collectContainers mx (blnPodIDs b2))"
    unfolding collectContainers_eq snd_conv by simp
  have f: "blnDefName b2 = blnDefName b1" "blnDefCpuClass b2 = blnDefCpuClass b1"
    "blnDefMinCpus b2 = blnDefMinCpus b1" "blnDefMaxCpus b2 = blnDefMaxCpus b1"
    "blnPrettyName b2 = blnPrettyName b1" "blnCpus b2 = blnCpus b1"
    "blnSharedIdleCpus b2 = blnSharedIdleCpus b1" "blnMems b2 = blnMems b1"
    by (subst assms(1), simp)+
  show ?thesis
    unfolding balloonMetrics_def Let_def case_prod_beta g n r f ..
qed

lemma GetMetrics_order:
  assumes "list_all2 (\<lambda>b1 b2. b2 = b1\<lparr>blnGroups := blnGroups b2, blnPodIDs := blnPodIDs b2\<rparr>
              \<and> mset (blnGroups b1) = mset (blnGroups b2)
              \<and> mset (blnPodIDs b1) = mset (blnPodIDs b2)) bs1 bs2"
  shows "GetMetrics mx bs1 = GetMetrics mx bs2"
  using assms unfolding GetMetrics_def
  by (induction rule: list_all2_induct) (simp_all add: balloonMetrics_order)

lemma collectSample_labels:
  "labelValues (collectSample mx bm) ! 5 = Groups bm"
  "labelValues (collectSample mx bm) ! 19 = ContainerNames bm"
  "gauge (collectSample mx bm) = real (card (Cpus bm))"
  by (simp_all add: collectSample_def)

lemma balloonMetrics_fields:
  "Groups (balloonMetrics mx b) = Join (sortStrings (collectGroups (blnGroups b))) '',''"
  "ContainerNames (balloonMetrics mx b)
     = Join (sortStrings (fst (collectContainers mx (blnPodIDs b)))) '',''"
  "Cpus (balloonMetrics mx b) = blnCpus b"
  by (simp_all add: balloonMetrics_def Let_def case_prod_beta)

lemma collectLoop_nth:
  "i < length (fst (collectLoop mx bms)) \<Longrightarrow>
   i < length bms \<and> fst (collectLoop mx bms) ! i = collectSample mx (bms ! i)"
proof (induction bms arbitrary: i)
  case Nil
  then show ?case by simp
next
  case (Cons bm bms)
  show ?case
  proof (cases "list_all (validUTF8 mx) (labelValues (collectSample mx bm))")
    case False
    with Cons.prems show ?thesis by (simp add: Let_def)
  next
    case True
    then have f: "fst (collectLoop mx (bm # bms)) = collectSample mx bm # fst (collectLoop mx bms)"
      by (simp add: Let_def split: prod.splits)
    show ?thesis
    proof (cases i)
      case 0
      then show ?thesis unfolding f by simp
    next
      case (Suc k)
      with Cons.prems have "k < length (fst (collectLoop mx bms))" unfolding f by simp
      from Cons.IH [OF this] Suc show ?thesis unfolding f by simp
    qed
  qed
qed

lemma collectLoop_complete:
  "snd (collectLoop mx bms) = None \<Longrightarrow> length (fst (collectLoop mx bms)) = length bms"
  by (induction bms) (auto simp: Let_def split: prod.splits if_splits)

text \<open>
  Claim C8, as stated, fails: for a balloon whose group \<open>g1\<close> has the count -1, the
  groups label that is emitted is \<open>g2\<close>, while the comma-join of the sorted names of
  the groups with non-zero count is \<open>g1,g2\<close>.
\<close>

theorem metrics_groups_label_counterexample:
  "labelValues (fst (Collect_metrics exampleMetricsExtern
       (Some (GetMetrics exampleMetricsExtern [negativeCountBalloon]))) ! 0) ! 5 = ''g2''
   \<and> Join (sort (map fst (filter (\<lambda>(g, c). c \<noteq> 0) (blnGroups negativeCountBalloon)))) '',''
       = ''g1,g2''"
proof -
  have v: "list_all (validUTF8 exampleMetricsExtern)
      (labelValues (collectSample exampleMetricsExtern
         (balloonMetrics exampleMetricsExtern negativeCountBalloon)))"
    by code_simp
  have e: "fst (Collect_metrics exampleMetricsExtern
       (Some (GetMetrics exampleMetricsExtern [negativeCountBalloon])))
      = [collectSample exampleMetricsExtern
           (balloonMetrics exampleMetricsExtern negativeCountBalloon)]"
    by (simp add: Collect_metrics_def GetMetrics_def Let_def v)
  have g: "Groups (balloonMetrics exampleMetricsExtern negativeCountBalloon) = ''g2''"
    by code_simp
  have j: "Join (sort (map fst (filter (\<lambda>(g, c). c \<noteq> 0) (blnGroups negativeCountBalloon)))) '',''
       = ''g1,g2''"
    by code_simp
  show ?thesis unfolding e by (simp add: collectSample_labels g j)
qed

text \<open>
  Claim C8, amended.  The metrics projection is deterministic: \<open>GetMetrics\<close> followed
  by \<open>Collect\<close> gives the same result (the emitted label tuples and gauge values, and
  whether a label value was refused) for two runs on one policy state, that is, for any
  two orders in which the group map and the pod map of each balloon are visited.  A
  sample is emitted for every balloon unless a label value is refused.  In every emitted
  sample the groups label is the comma-join of the sorted names of the groups with a
  count greater than 0, the containers label is the comma-join of the sorted pretty
  names of the balloon's containers, and the gauge is the balloon's CPU count.
\<close>

theorem metrics_deterministic:
  assumes "list_all2 (\<lambda>b1 b2. b2 = b1\<lparr>blnGroups := blnGroups b2, blnPodIDs := blnPodIDs b2\<rparr>
              \<and> mset (blnGroups b1) = mset (blnGroups b2)
              \<and> mset (blnPodIDs b1) = mset (blnPodIDs b2)) bs1 bs2"
  shows "Collect_metrics mx (Some (GetMetrics mx bs1)) = Collect_metrics mx (Some (GetMetrics mx bs2))
    \<and> (snd (Collect_metrics mx (Some (GetMetrics mx bs1))) = None
         \<longrightarrow> length (fst (Collect_metrics mx (Some (GetMetrics mx bs1)))) = length bs1)
    \<and> (\<forall>i<length (fst (Collect_metrics mx (Some (GetMetrics mx bs1)))).
          labelValues (fst (Collect_metrics mx (Some (GetMetrics mx bs1))) ! i) ! 5
            = Join (sort (map fst (filter (\<lambda>(g, c). c > 0) (blnGroups (bs1 ! i))))) '',''
        \<and> labelValues (fst (Collect_metrics mx (Some (GetMetrics mx bs1))) ! i) ! 19
            = Join (sort (foundContainerNames mx (blnPodIDs (bs1 ! i)))) '',''
        \<and> gauge (fst (Collect_metrics mx (Some (GetMetrics mx bs1))) ! i)
            = real (card (blnCpus (bs1 ! i))))"
proof (intro conjI allI impI)
  show "Collect_metrics mx (Some (GetMetrics mx bs1)) = Collect_metrics mx (Some (GetMetrics mx bs2))"
    by (simp add: GetMetrics_order [OF assms(1)])
next
  assume "snd (Collect_metrics mx (Some (GetMetrics mx bs1))) = None"
  then show "length (fst (Collect_metrics mx (Some (GetMetrics mx bs1)))) = length bs1"
    using collectLoop_complete [of mx "GetMetrics mx bs1"]
    by (simp add: Collect_metrics_def GetMetrics_def)
next
  fix i assume "i < length (fst (Collect_metrics mx (Some (GetMetrics mx bs1))))"
  then have "i < length (fst (collectLoop mx (GetMetrics mx bs1)))"
    by (simp add: Collect_metrics_def)
  from collectLoop_nth [OF this]
  have s: "fst (Collect_metrics mx (Some (GetMetrics mx bs1))) ! i
      = collectSample mx (balloonMetrics mx (bs1 ! i))"
    by (simp add: Collect_metrics_def GetMetrics_def)
  show "labelValues (fst (Collect_metrics mx (Some (GetMetrics mx bs1))) ! i) ! 5
            = Join (sort (map fst (filter (\<lambda>(g, c). c > 0) (blnGroups (bs1 ! i))))) '',''"
    by (simp add: s collectSample_labels balloonMetrics_fields sortStrings_def collectGroups_eq)
  show "labelValues (fst (Collect_metrics mx (Some (GetMetrics mx bs1))) ! i) ! 19
            = Join (sort (foundContainerNames mx (blnPodIDs (bs1 ! i)))) '',''"
    by (simp add: s collectSample_labels balloonMetrics_fields sortStrings_def collectContainers_eq)
  show "gauge (fst (Collect_metrics mx (Some (GetMetrics mx bs1))) ! i)
            = real (card (blnCpus (bs1 ! i)))"
    by (simp add: s collectSample_labels balloonMetrics_fields)
qed

lemma exampleBalloon_labels:
  "Join (sort (map fst (filter (\<lambda>(g, c). c > 0) (blnGroups exampleBalloon)))) '','' = ''g1,g2''"
  "Join (sort (foundContainerNames exampleMetricsExtern (blnPodIDs exampleBalloon))) '',''
     = ''pod0/c1,pod1/c2''"
  "list_all (validUTF8 exampleMetricsExtern)
      (labelValues (collectSample exampleMetricsExtern
         (balloonMetrics exampleMetricsExtern exampleBalloon)))"
  by code_simp+

lemma exampleBalloon_emitted:
  "snd (Collect_metrics exampleMetricsExtern
      (Some (GetMetrics exampleMetricsExtern [exampleBalloon]))) = None"
  by (simp add: Collect_metrics_def GetMetrics_def Let_def exampleBalloon_labels(3))

theorem metrics_deterministic_witness:
  "mset (blnGroups exampleBalloon) = mset (blnGroups exampleBalloonReordered)
   \<and> mset (blnPodIDs exampleBalloon) = mset (blnPodIDs exampleBalloonReordered)
   \<and> blnGroups exampleBalloon \<noteq> blnGroups exampleBalloonReordered
   \<and> Collect_metrics exampleMetricsExtern (Some (GetMetrics exampleMetricsExtern [exampleBalloon]))
       = Collect_metrics exampleMetricsExtern (Some (GetMetrics exampleMetricsExtern [exampleBalloonReordered]))
   \<and> length (fst (Collect_metrics exampleMetricsExtern
         (Some (GetMetrics exampleMetricsExtern [exampleBalloon])))) = 1
   \<and> labelValues (fst (Collect_metrics exampleMetricsExtern
         (Some (GetMetrics exampleMetricsExtern [exampleBalloon]))) ! 0) ! 5 = ''g1,g2''
   \<and> labelValues (fst (Collect_metrics exampleMetricsExtern
         (Some (GetMetrics exampleMetricsExtern [exampleBalloon]))) ! 0) ! 19 = ''pod0/c1,pod1/c2''
   \<and> gauge (fst (Collect_metrics exampleMetricsExtern
         (Some (GetMetrics exampleMetricsExtern [exampleBalloon]))) ! 0) = 2"
proof -
  have g: "mset (blnGroups exampleBalloon) = mset (blnGroups exampleBalloonReordered)"
    by (simp add: exampleBalloon_def exampleBalloonReordered_def)
  have p: "mset (blnPodIDs exampleBalloon) = mset (blnPodIDs exampleBalloonReordered)"
    by (simp add: exampleBalloon_def exampleBalloonReordered_def)
  have ne: "blnGroups exampleBalloon \<noteq> blnGroups exampleBalloonReordered"
    by (simp add: exampleBalloon_def exampleBalloonReordered_def)
  have same: "list_all2 (\<lambda>b1 b2. b2 = b1\<lparr>blnGroups := blnGroups b2, blnPodIDs := blnPodIDs b2\<rparr>
              \<and> mset (blnGroups b1) = mset (blnGroups b2)
              \<and> mset (blnPodIDs b1) = mset (blnPodIDs b2)) [exampleBalloon] [exampleBalloonReordered]"
    using g p by (simp add: exampleBalloonReordered_def)
  have c: "card (blnCpus exampleBalloon) = 2" by (simp add: exampleBalloon_def)
  note d = metrics_deterministic [OF same, of exampleMetricsExtern]
  from d [THEN conjunct2, THEN conjunct1] exampleBalloon_emitted
  have n: "length (fst (Collect_metrics exampleMetricsExtern
         (Some (GetMetrics exampleMetricsExtern [exampleBalloon])))) = 1"
    by simp
  from d [THEN conjunct2, THEN conjunct2] n
  have l: "labelValues (fst (Collect_metrics exampleMetricsExtern
         (Some (GetMetrics exampleMetricsExtern [exampleBalloon]))) ! 0) ! 5 = ''g1,g2''
   \<and> labelValues (fst (Collect_metrics exampleMetricsExtern
         (Some (GetMetrics exampleMetricsExtern [exampleBalloon]))) ! 0) ! 19 = ''pod0/c1,pod1/c2''
   \<and> gauge (fst (Collect_metrics exampleMetricsExtern
         (Some (GetMetrics exampleMetricsExtern [exampleBalloon]))) ! 0) = 2"
    by (simp add: exampleBalloon_labels(1,2) c)
  from d [THEN conjunct1] g p ne n l show ?thesis by blast
qed

end
